theory Spec2Isabelle
  imports Complex_Main "HOL-Library.Word"
begin

section \<open>Data model\<close>

text \<open>
  The three Go services (user-service, product-service, order-service) and the traffic
  generator are separate \<^verbatim>\<open>package main\<close> programs. Go's \<^verbatim>\<open>int\<close> is the 64-bit
  two's-complement integer of the amd64/arm64 builds: \<open>+\<close> and \<open>-\<close> wrap around and
  \<open><\<close> is the signed comparison \<open><s\<close>. Go's \<^verbatim>\<open>float64\<close> is kept abstract as the type
  variable \<open>'p\<close>: only \<open>0\<close>, \<open>+\<close> and \<open>*\<close> are used on it, with no algebraic law assumed,
  and the conversion \<^verbatim>\<open>float64(n)\<close> is a parameter of the functions that use it.
\<close>

type_synonym go_int = "64 word"

text \<open>
  JSON values as the services marshal them. An object keeps its members in the order
  \<^verbatim>\<open>json.Marshal\<close> writes them: the order of the fields for a struct, the order of the
  sorted keys for a map such as \<^verbatim>\<open>gin.H\<close>.
\<close>

datatype 'p json =
    JNull
  | JInt go_int
  | JNum 'p
  | JStr string
  | JTime nat
  | JArr "'p json list"
  | JObj "(string \<times> 'p json) list"

text \<open>\<^verbatim>\<open>type User struct\<close> of user-service.\<close>

record User =
  ID :: go_int
  Email :: string
  Name :: string
  Password :: string

record LoginRequest =
  Email :: string
  Password :: string

text \<open>\<^verbatim>\<open>type Product struct\<close> of product-service.\<close>

record 'p Product =
  ID :: go_int
  Name :: string
  Description :: string
  Price :: 'p
  Category :: string
  Stock :: go_int
  ImageURL :: string

text \<open>The anonymous request struct of the reserve and release handlers.\<close>

record InventoryRequest =
  Quantity :: go_int
  OrderID :: go_int

text \<open>The structs of order-service. \<^verbatim>\<open>CreateOrderItem\<close> is the anonymous item struct of
  \<^verbatim>\<open>CreateOrderRequest\<close>; times are Unix readings of \<^verbatim>\<open>time.Now()\<close>.\<close>

record 'p OrderItem =
  ProductID :: go_int
  Quantity :: go_int
  Price :: 'p
  Name :: string

record 'p Order =
  ID :: go_int
  UserID :: go_int
  Items :: "'p OrderItem list"
  Status :: string
  Total :: 'p
  CreatedAt :: nat
  UpdatedAt :: nat
  PaymentID :: string
  ShippingID :: string

record CreateOrderItem =
  ProductID :: go_int
  Quantity :: go_int

record CreateOrderRequest =
  UserID :: go_int
  Items :: "CreateOrderItem list"

record 'p ProductResponse =
  ID :: go_int
  Name :: string
  Price :: 'p
  Stock :: go_int

text \<open>
  \<^verbatim>\<open>type RegisterRequest struct\<close> of user-service, and the payment structs of
  order-service: the anonymous request struct of \<^verbatim>\<open>processPaymentHandler\<close> and
  \<^verbatim>\<open>type Payment struct\<close>.
\<close>

record RegisterRequest =
  Email :: string
  Name :: string
  Password :: string

record 'p PaymentRequest =
  PaymentMethod :: string
  Amount :: 'p

record 'p Payment =
  ID :: string
  OrderID :: go_int
  Amount :: 'p
  Status :: string
  PaymentMethod :: string
  ProcessedAt :: nat

text \<open>The logrus levels the services log at, and one structured log line.\<close>

datatype level = InfoLevel | WarnLevel | ErrorLevel | FatalLevel

record 'p LogRecord =
  Level :: level
  Message :: string
  Data :: "(string \<times> 'p json) list"

text \<open>
  Outbound HTTP requests. The calls between the services have one constructor per
  endpoint; their integers are the ones that \<^verbatim>\<open>fmt.Sprintf("%d")\<close> writes into the URL or
  that are marshalled into the payload, and the receiving handler gets them back from
  \<^verbatim>\<open>strconv.Atoi\<close> and \<^verbatim>\<open>ShouldBindJSON\<close>. The requests of the traffic generator are
  \<open>HTTP\<close> with method, URL and the payload's string fields.
\<close>

datatype request =
    GET_users go_int
  | GET_products go_int
  | POST_inventory_reserve go_int go_int go_int
  | POST_inventory_release go_int go_int go_int
  | HTTP string string "(string \<times> string) list"

text \<open>
  An HTTP response: the status code and the JSON value in its body, \<open>None\<close> for a response
  without a body (or one whose body the receiver never reads).
\<close>

record 'p response =
  status :: nat
  body :: "'p json option"

text \<open>
  What a run of a function leaves behind, in order: spans started and ended on the
  tracer, log entries handed to logrus, requests handed to the HTTP client, each with
  the response that came back (\<open>None\<close> when the client returned an error), goroutines
  started with \<^verbatim>\<open>go\<close>, assignments to a package-level table (\<open>Mutate\<close>, with the name
  of the variable), and calls of \<^verbatim>\<open>Lock\<close> and \<^verbatim>\<open>Unlock\<close> on a mutex (with its name).
\<close>

datatype 'p event =
    SpanStart string
  | SpanEnd string
  | Log "'p LogRecord"
  | Call request "'p response option"
  | Go string
  | Mutate string
  | Lock string
  | Unlock string

text \<open>
  \<^verbatim>\<open>_, span := tracer.Start(ctx, name); defer span.End()\<close>: the span is started, the rest
  of the function body runs to whichever \<^verbatim>\<open>return\<close> it takes, and the deferred
  \<^verbatim>\<open>End\<close> runs after it.
\<close>

definition withSpan :: "string \<Rightarrow> 'a \<times> 'p event list \<Rightarrow> 'a \<times> 'p event list" where
  "withSpan name run = (fst run, SpanStart name # snd run @ [SpanEnd name])"

definition logs :: "'p event list \<Rightarrow> 'p LogRecord list" where
  "logs es = concat (map (\<lambda>e. case e of Log r \<Rightarrow> [r] | _ \<Rightarrow> []) es)"

text \<open>A log line is trace-correlated when it carries the trace id of the active span.\<close>

definition correlated :: "string \<Rightarrow> 'p LogRecord \<Rightarrow> bool" where
  "correlated tid r = (map_of (Data r) ''trace_id'' = Some (JStr tid))"

definition errorJSON :: "string \<Rightarrow> 'p json" where
  "errorJSON msg = JObj [(''error'', JStr msg)]"

text \<open>\<^verbatim>\<open>for i, x := range xs { if P x { ... return } }\<close>: the first index that matches.\<close>

fun findIndex :: "('a \<Rightarrow> bool) \<Rightarrow> 'a list \<Rightarrow> nat option" where
  "findIndex P [] = None"
| "findIndex P (x # xs) = (if P x then Some 0 else map_option Suc (findIndex P xs))"

text \<open>\<^verbatim>\<open>fmt.Sprintf("%d", n)\<close> for a Go int.\<close>

fun digits :: "nat \<Rightarrow> string" where
  "digits n = (if n < 10 then [char_of (48 + n)]
               else digits (n div 10) @ [char_of (48 + n mod 10)])"

declare digits.simps [simp del]

definition itoa :: "go_int \<Rightarrow> string" where
  "itoa n = (if sint n < 0 then CHR ''-'' # digits (nat (- sint n)) else digits (nat (sint n)))"

section \<open>product-service\<close>

definition product_serviceName :: string where
  "product_serviceName = ''product-service''"

text \<open>
  The initial catalog. The prices are decimal literals in the source; \<open>lit\<close> is the
  rounding of a decimal literal to \<^verbatim>\<open>float64\<close>.
\<close>

definition products :: "(rat \<Rightarrow> 'p) \<Rightarrow> 'p Product list" where
  "products lit =
    [\<lparr>Product.ID = 1, Name = ''Laptop Gaming'', Description = ''High-performance gaming laptop'',
      Price = lit (129999 / 100), Category = ''Electronics'', Stock = 15,
      ImageURL = ''https://example.com/laptop.jpg''\<rparr>,
     \<lparr>Product.ID = 2, Name = ''Smartphone Pro'', Description = ''Latest smartphone with AI camera'',
      Price = lit (89999 / 100), Category = ''Electronics'', Stock = 8,
      ImageURL = ''https://example.com/phone.jpg''\<rparr>,
     \<lparr>Product.ID = 3, Name = ''Running Shoes'', Description = ''Professional running shoes'',
      Price = lit (15999 / 100), Category = ''Sports'', Stock = 25,
      ImageURL = ''https://example.com/shoes.jpg''\<rparr>,
     \<lparr>Product.ID = 4, Name = ''Coffee Maker'', Description = ''Automatic espresso machine'',
      Price = lit (29999 / 100), Category = ''Home'', Stock = 12,
      ImageURL = ''https://example.com/coffee.jpg''\<rparr>,
     \<lparr>Product.ID = 5, Name = ''Wireless Headphones'', Description = ''Noise-cancelling headphones'',
      Price = lit (19999 / 100), Category = ''Electronics'', Stock = 20,
      ImageURL = ''https://example.com/headphones.jpg''\<rparr>,
     \<lparr>Product.ID = 6, Name = ''Yoga Mat'', Description = ''Premium yoga mat'',
      Price = lit (4999 / 100), Category = ''Sports'', Stock = 30,
      ImageURL = ''https://example.com/yoga.jpg''\<rparr>,
     \<lparr>Product.ID = 7, Name = ''Smart Watch'', Description = ''Fitness tracking smartwatch'',
      Price = lit (24999 / 100), Category = ''Electronics'', Stock = 5,
      ImageURL = ''https://example.com/watch.jpg''\<rparr>,
     \<lparr>Product.ID = 8, Name = ''Backpack'', Description = ''Travel backpack'',
      Price = lit (7999 / 100), Category = ''Travel'', Stock = 18,
      ImageURL = ''https://example.com/backpack.jpg''\<rparr>]"

text \<open>\<^verbatim>\<open>json.Marshal\<close> of a \<^verbatim>\<open>Product\<close>, by its struct tags.\<close>

definition marshalProduct :: "'p Product \<Rightarrow> 'p json" where
  "marshalProduct p = JObj
    [(''id'', JInt (Product.ID p)), (''name'', JStr (Product.Name p)),
     (''description'', JStr (Description p)), (''price'', JNum (Product.Price p)),
     (''category'', JStr (Category p)), (''stock'', JInt (Product.Stock p)),
     (''image_url'', JStr (ImageURL p))]"

text \<open>
  \<^verbatim>\<open>getProductHandler\<close>. \<open>idParam\<close> is the result of \<^verbatim>\<open>strconv.Atoi(c.Param("id"))\<close>,
  \<open>None\<close> when it fails; \<open>tid\<close> is the trace id of the span.
\<close>

definition getProductHandler ::
  "string \<Rightarrow> go_int option \<Rightarrow> 'p Product list \<Rightarrow> 'p response \<times> 'p event list" where
  "getProductHandler tid idParam ps = withSpan ''get_product''
    (case idParam of
       None \<Rightarrow> (\<lparr>status = 400, body = Some (errorJSON ''Invalid product ID'')\<rparr>, [])
     | Some productID \<Rightarrow>
        (case find (\<lambda>p. Product.ID p = productID) ps of
           Some product \<Rightarrow>
             (\<lparr>status = 200, body = Some (marshalProduct product)\<rparr>,
              [Log \<lparr>Level = InfoLevel, Message = ''Product retrieved successfully'',
                    Data = [(''service'', JStr product_serviceName),
                              (''endpoint'', JStr ''/products/:id''),
                              (''product_id'', JInt productID),
                              (''trace_id'', JStr tid)]\<rparr>])
         | None \<Rightarrow>
             (\<lparr>status = 404, body = Some (errorJSON ''Product not found'')\<rparr>,
              [Log \<lparr>Level = WarnLevel, Message = ''Product not found'',
                    Data = [(''service'', JStr product_serviceName),
                              (''endpoint'', JStr ''/products/:id''),
                              (''product_id'', JInt productID),
                              (''error'', JStr ''product_not_found''),
                              (''trace_id'', JStr tid)]\<rparr>])))"

text \<open>
  \<^verbatim>\<open>reserveInventoryHandler\<close>. \<open>req\<close> is the result of \<^verbatim>\<open>c.ShouldBindJSON(&request)\<close>,
  \<open>None\<close> when binding fails. The result carries the products table as the handler
  leaves it.
\<close>

definition reserveInventoryHandler ::
  "string \<Rightarrow> go_int option \<Rightarrow> InventoryRequest option \<Rightarrow> 'p Product list
    \<Rightarrow> ('p response \<times> 'p Product list) \<times> 'p event list" where
  "reserveInventoryHandler tid idParam req ps = withSpan ''reserve_inventory''
    (case idParam of
       None \<Rightarrow> ((\<lparr>status = 400, body = Some (errorJSON ''Invalid product ID'')\<rparr>, ps), [])
     | Some productID \<Rightarrow>
        (case req of
           None \<Rightarrow> ((\<lparr>status = 400, body = Some (errorJSON ''Invalid request'')\<rparr>, ps), [])
         | Some request \<Rightarrow>
            (case findIndex (\<lambda>p. Product.ID p = productID) ps of
               Some i \<Rightarrow>
                 (let product = ps ! i in
                  if Product.Stock product <s InventoryRequest.Quantity request then
                    ((\<lparr>status = 409, body = Some (errorJSON ''Insufficient stock'')\<rparr>, ps),
                     [Log \<lparr>Level = WarnLevel, Message = ''Insufficient stock for reservation'',
                           Data = [(''service'', JStr product_serviceName),
                                     (''endpoint'', JStr ''/inventory/:id/reserve''),
                                     (''product_id'', JInt productID),
                                     (''order_id'', JInt (InventoryRequest.OrderID request)),
                                     (''requested'', JInt (InventoryRequest.Quantity request)),
                                     (''available'', JInt (Product.Stock product)),
                                     (''error'', JStr ''insufficient_stock''),
                                     (''trace_id'', JStr tid)]\<rparr>])
                  else
                    (let ps' = ps[i := (ps ! i)\<lparr>Product.Stock := Product.Stock (ps ! i) - InventoryRequest.Quantity request\<rparr>] in
                     ((\<lparr>status = 200, body = Some (JObj
                          [(''order_id'', JInt (InventoryRequest.OrderID request)),
                           (''product_id'', JInt productID),
                           (''remaining_stock'', JInt (Product.Stock (ps' ! i))),
                           (''reservation_id'',
                              JStr (''RES-'' @ itoa productID @ ''-'' @ itoa (InventoryRequest.OrderID request))),
                           (''reserved_quantity'', JInt (InventoryRequest.Quantity request))])\<rparr>,
                       ps'),
                      [Mutate ''products'',
                       Log \<lparr>Level = InfoLevel, Message = ''Inventory reserved successfully'',
                            Data = [(''service'', JStr product_serviceName),
                                      (''endpoint'', JStr ''/inventory/:id/reserve''),
                                      (''product_id'', JInt productID),
                                      (''order_id'', JInt (InventoryRequest.OrderID request)),
                                      (''quantity'', JInt (InventoryRequest.Quantity request)),
                                      (''remaining'', JInt (Product.Stock (ps' ! i))),
                                      (''trace_id'', JStr tid)]\<rparr>])))
             | None \<Rightarrow> ((\<lparr>status = 404, body = Some (errorJSON ''Product not found'')\<rparr>, ps), []))))"

text \<open>\<^verbatim>\<open>releaseInventoryHandler\<close>, with the same inputs.\<close>

definition releaseInventoryHandler ::
  "string \<Rightarrow> go_int option \<Rightarrow> InventoryRequest option \<Rightarrow> 'p Product list
    \<Rightarrow> ('p response \<times> 'p Product list) \<times> 'p event list" where
  "releaseInventoryHandler tid idParam req ps = withSpan ''release_inventory''
    (case idParam of
       None \<Rightarrow> ((\<lparr>status = 400, body = Some (errorJSON ''Invalid product ID'')\<rparr>, ps), [])
     | Some productID \<Rightarrow>
        (case req of
           None \<Rightarrow> ((\<lparr>status = 400, body = Some (errorJSON ''Invalid request'')\<rparr>, ps), [])
         | Some request \<Rightarrow>
            (case findIndex (\<lambda>p. Product.ID p = productID) ps of
               Some i \<Rightarrow>
                 (let ps' = ps[i := (ps ! i)\<lparr>Product.Stock := Product.Stock (ps ! i) + InventoryRequest.Quantity request\<rparr>] in
                  ((\<lparr>status = 200, body = Some (JObj
                       [(''order_id'', JInt (InventoryRequest.OrderID request)),
                        (''product_id'', JInt productID),
                        (''released_quantity'', JInt (InventoryRequest.Quantity request)),
                        (''total_stock'', JInt (Product.Stock (ps' ! i)))])\<rparr>,
                    ps'),
                   [Mutate ''products'',
                    Log \<lparr>Level = InfoLevel, Message = ''Inventory released successfully'',
                         Data = [(''service'', JStr product_serviceName),
                                   (''endpoint'', JStr ''/inventory/:id/release''),
                                   (''product_id'', JInt productID),
                                   (''order_id'', JInt (InventoryRequest.OrderID request)),
                                   (''quantity'', JInt (InventoryRequest.Quantity request)),
                                   (''new_total'', JInt (Product.Stock (ps' ! i))),
                                   (''trace_id'', JStr tid)]\<rparr>]))
             | None \<Rightarrow> ((\<lparr>status = 404, body = Some (errorJSON ''Product not found'')\<rparr>, ps), []))))"

text \<open>
  \<^verbatim>\<open>updateProductPriceHandler\<close>. \<open>req\<close> is the \<^verbatim>\<open>Price\<close> of the request struct that
  \<^verbatim>\<open>c.ShouldBindJSON\<close> has filled (\<open>None\<close> when binding fails), \<open>draw\<close> the value of
  \<^verbatim>\<open>rand.Intn(100)\<close>, \<open>now\<close> the reading of \<^verbatim>\<open>time.Now()\<close> and \<open>flt\<close> the conversion of an
  integer constant to \<^verbatim>\<open>float64\<close>. The prices of the table are the literals of the initial
  catalog or were bound from a JSON number by this handler, so they are finite and
  marshalling them does not fail.
\<close>

definition updateProductPriceHandler ::
  "(go_int \<Rightarrow> 'p::{minus,times,inverse}) \<Rightarrow> string \<Rightarrow> go_int option \<Rightarrow> 'p option \<Rightarrow> nat \<Rightarrow> nat
    \<Rightarrow> 'p Product list \<Rightarrow> ('p response \<times> 'p Product list) \<times> 'p event list" where
  "updateProductPriceHandler flt tid idParam req draw now ps = withSpan ''update_product_price''
    (case idParam of
       None \<Rightarrow> ((\<lparr>status = 400, body = Some (errorJSON ''Invalid product ID'')\<rparr>, ps), [])
     | Some productID \<Rightarrow>
        (case req of
           None \<Rightarrow> ((\<lparr>status = 400, body = Some (errorJSON ''Invalid request'')\<rparr>, ps), [])
         | Some price \<Rightarrow>
            if draw < 10 then
              ((\<lparr>status = 422, body = Some (errorJSON ''Price violates pricing policy'')\<rparr>, ps),
               [Log \<lparr>Level = ErrorLevel,
                     Message = ''Price update failed - pricing policy violation'',
                     Data = [(''service'', JStr product_serviceName),
                             (''endpoint'', JStr ''/products/:id/price''),
                             (''product_id'', JInt productID),
                             (''new_price'', JNum price),
                             (''error'', JStr ''pricing_policy_violation''),
                             (''trace_id'', JStr tid)]\<rparr>])
            else
              (case findIndex (\<lambda>p. Product.ID p = productID) ps of
                 Some i \<Rightarrow>
                   (let oldPrice = Product.Price (ps ! i) in
                    ((\<lparr>status = 200, body = Some (JObj
                         [(''new_price'', JNum price),
                          (''old_price'', JNum oldPrice),
                          (''product_id'', JInt productID),
                          (''updated_at'', JTime now)])\<rparr>,
                      ps[i := (ps ! i)\<lparr>Product.Price := price\<rparr>]),
                     [Mutate ''products'',
                      Log \<lparr>Level = InfoLevel, Message = ''Product price updated successfully'',
                           Data = [(''service'', JStr product_serviceName),
                                   (''endpoint'', JStr ''/products/:id/price''),
                                   (''product_id'', JInt productID),
                                   (''old_price'', JNum oldPrice),
                                   (''new_price'', JNum price),
                                   (''change_pct'', JNum (((price - oldPrice) / oldPrice) * flt 100)),
                                   (''trace_id'', JStr tid)]\<rparr>]))
               | None \<Rightarrow>
                   ((\<lparr>status = 404, body = Some (errorJSON ''Product not found'')\<rparr>, ps), []))))"

section \<open>user-service\<close>

definition user_serviceName :: string where
  "user_serviceName = ''user-service''"

definition jwtSecret :: string where
  "jwtSecret = ''your-secret-key''"

definition users :: "User list" where
  "users =
    [\<lparr>User.ID = 1, Email = ''john@example.com'', Name = ''John Doe'', Password = ''password123''\<rparr>,
     \<lparr>User.ID = 2, Email = ''jane@example.com'', Name = ''Jane Smith'', Password = ''password123''\<rparr>,
     \<lparr>User.ID = 3, Email = ''alice@example.com'', Name = ''Alice Johnson'', Password = ''password123''\<rparr>]"

text \<open>
  \<^verbatim>\<open>json.Marshal\<close> of a \<^verbatim>\<open>User\<close>: the password field is tagged \<^verbatim>\<open>omitempty\<close>, so an empty
  password leaves no \<^verbatim>\<open>"password"\<close> key.
\<close>

definition marshalUser :: "User \<Rightarrow> 'p json" where
  "marshalUser u = JObj
    ([(''id'', JInt (User.ID u)), (''email'', JStr (User.Email u)), (''name'', JStr (User.Name u))]
     @ (if User.Password u = [] then [] else [(''password'', JStr (User.Password u))]))"

text \<open>
  \<^verbatim>\<open>loginHandler\<close>. \<open>req\<close> is the result of \<^verbatim>\<open>c.ShouldBindJSON(&req)\<close> (\<open>None\<close> when it
  fails), \<open>draw\<close> the value of \<^verbatim>\<open>rand.Intn(100)\<close>, \<open>now\<close> the Unix time, and \<open>signedString\<close>
  the JWT library's HS256 signing of a claims object under a secret, which may fail.
\<close>

definition loginHandler ::
  "('p json \<Rightarrow> string \<Rightarrow> string option) \<Rightarrow> go_int \<Rightarrow> string \<Rightarrow> nat \<Rightarrow> LoginRequest option
    \<Rightarrow> User list \<Rightarrow> 'p response \<times> 'p event list" where
  "loginHandler signedString now tid draw req us = withSpan ''user_login''
    (case req of
       None \<Rightarrow>
         (\<lparr>status = 400, body = Some (errorJSON ''Invalid request'')\<rparr>,
          [Log \<lparr>Level = ErrorLevel, Message = ''Invalid login request'',
                Data = [(''service'', JStr user_serviceName),
                        (''endpoint'', JStr ''/auth/login''),
                        (''error'', JStr ''invalid_request''),
                        (''trace_id'', JStr tid)]\<rparr>])
     | Some r \<Rightarrow>
        if draw < 15 then
          (\<lparr>status = 500, body = Some (errorJSON ''Internal server error'')\<rparr>,
           [Log \<lparr>Level = ErrorLevel, Message = ''Database connection failed during login'',
                 Data = [(''service'', JStr user_serviceName),
                         (''endpoint'', JStr ''/auth/login''),
                         (''email'', JStr (LoginRequest.Email r)),
                         (''error'', JStr ''database_connection_failed''),
                         (''trace_id'', JStr tid)]\<rparr>])
        else
          (case find (\<lambda>u. User.Email u = LoginRequest.Email r
                           \<and> User.Password u = LoginRequest.Password r) us of
             None \<Rightarrow>
               (\<lparr>status = 401, body = Some (errorJSON ''Invalid credentials'')\<rparr>,
                [Log \<lparr>Level = WarnLevel, Message = ''Invalid login attempt'',
                      Data = [(''service'', JStr user_serviceName),
                              (''endpoint'', JStr ''/auth/login''),
                              (''email'', JStr (LoginRequest.Email r)),
                              (''error'', JStr ''invalid_credentials''),
                              (''trace_id'', JStr tid)]\<rparr>])
           | Some user \<Rightarrow>
              (case signedString
                      (JObj [(''email'', JStr (User.Email user)),
                             (''exp'', JInt (now + 86400)),
                             (''user_id'', JInt (User.ID user))])
                      jwtSecret of
                 None \<Rightarrow>
                   (\<lparr>status = 500, body = Some (errorJSON ''Internal server error'')\<rparr>,
                    [Log \<lparr>Level = ErrorLevel, Message = ''Failed to generate JWT token'',
                          Data = [(''service'', JStr user_serviceName),
                                  (''error'', JStr ''token_generation_failed''),
                                  (''trace_id'', JStr tid)]\<rparr>])
               | Some tokenString \<Rightarrow>
                   (\<lparr>status = 200, body = Some (JObj
                       [(''email'', JStr (User.Email user)),
                        (''name'', JStr (User.Name user)),
                        (''token'', JStr tokenString),
                        (''user_id'', JInt (User.ID user))])\<rparr>,
                    [Log \<lparr>Level = InfoLevel, Message = ''User logged in successfully'',
                          Data = [(''service'', JStr user_serviceName),
                                  (''endpoint'', JStr ''/auth/login''),
                                  (''user_id'', JInt (User.ID user)),
                                  (''email'', JStr (User.Email user)),
                                  (''trace_id'', JStr tid)]\<rparr>]))))"

text \<open>
  \<^verbatim>\<open>registerHandler\<close>. \<open>req\<close> is the result of \<^verbatim>\<open>c.ShouldBindJSON(&req)\<close>. The result
  carries the users table as the handler leaves it.
\<close>

definition registerHandler ::
  "string \<Rightarrow> RegisterRequest option \<Rightarrow> User list
    \<Rightarrow> ('p response \<times> User list) \<times> 'p event list" where
  "registerHandler tid req us = withSpan ''user_register''
    (case req of
       None \<Rightarrow> ((\<lparr>status = 400, body = Some (errorJSON ''Invalid request'')\<rparr>, us), [])
     | Some r \<Rightarrow>
        if list_ex (\<lambda>u. User.Email u = RegisterRequest.Email r) us then
          ((\<lparr>status = 409, body = Some (errorJSON ''User already exists'')\<rparr>, us),
           [Log \<lparr>Level = WarnLevel, Message = ''Attempt to register existing user'',
                 Data = [(''service'', JStr user_serviceName),
                         (''endpoint'', JStr ''/auth/register''),
                         (''email'', JStr (RegisterRequest.Email r)),
                         (''error'', JStr ''user_already_exists''),
                         (''trace_id'', JStr tid)]\<rparr>])
        else
          (let newUser = \<lparr>User.ID = of_nat (length us) + 1,
                          Email = RegisterRequest.Email r,
                          Name = RegisterRequest.Name r,
                          Password = RegisterRequest.Password r\<rparr>
           in ((\<lparr>status = 201, body = Some (JObj
                   [(''email'', JStr (User.Email newUser)),
                    (''message'', JStr ''User created successfully''),
                    (''name'', JStr (User.Name newUser)),
                    (''user_id'', JInt (User.ID newUser))])\<rparr>,
                us @ [newUser]),
               [Mutate ''users'',
                Log \<lparr>Level = InfoLevel, Message = ''User registered successfully'',
                     Data = [(''service'', JStr user_serviceName),
                             (''endpoint'', JStr ''/auth/register''),
                             (''user_id'', JInt (User.ID newUser)),
                             (''email'', JStr (User.Email newUser)),
                             (''trace_id'', JStr tid)]\<rparr>])))"

text \<open>
  \<^verbatim>\<open>loggingMiddleware\<close>: gin calls the formatter once the handler has written its
  response; the formatter logs one info line and returns the empty string.
\<close>

record LogFormatterParams =
  Method :: string
  Path :: string
  Latency :: go_int
  ClientIP :: string
  UserAgent :: string
  RequestID :: string

definition user_loggingMiddleware ::
  "LogFormatterParams \<Rightarrow> 'p response \<times> 'p event list \<Rightarrow> 'p response \<times> 'p event list" where
  "user_loggingMiddleware param run =
    (fst run,
     snd run @
     [Log \<lparr>Level = InfoLevel, Message = ''HTTP request'',
           Data = [(''service'', JStr user_serviceName),
                   (''method'', JStr (Method param)),
                   (''path'', JStr (Path param)),
                   (''status'', JInt (of_nat (status (fst run)))),
                   (''latency'', JInt (Latency param)),
                   (''client_ip'', JStr (ClientIP param)),
                   (''user_agent'', JStr (UserAgent param)),
                   (''request_id'', JStr (RequestID param))]\<rparr>])"

text \<open>\<^verbatim>\<open>getUserHandler\<close>; \<open>idParam\<close> is the result of \<^verbatim>\<open>strconv.Atoi(c.Param("id"))\<close>.\<close>

definition getUserHandler ::
  "string \<Rightarrow> go_int option \<Rightarrow> User list \<Rightarrow> 'p response \<times> 'p event list" where
  "getUserHandler tid idParam us = withSpan ''get_user''
    (case idParam of
       None \<Rightarrow> (\<lparr>status = 400, body = Some (errorJSON ''Invalid user ID'')\<rparr>, [])
     | Some userID \<Rightarrow>
        (case find (\<lambda>u. User.ID u = userID) us of
           Some user \<Rightarrow>
             (\<lparr>status = 200, body = Some (marshalUser (user\<lparr>User.Password := ''''\<rparr>))\<rparr>,
              [Log \<lparr>Level = InfoLevel, Message = ''User retrieved successfully'',
                    Data = [(''service'', JStr user_serviceName),
                            (''endpoint'', JStr ''/users/:id''),
                            (''user_id'', JInt userID),
                            (''trace_id'', JStr tid)]\<rparr>])
         | None \<Rightarrow>
             (\<lparr>status = 404, body = Some (errorJSON ''User not found'')\<rparr>,
              [Log \<lparr>Level = WarnLevel, Message = ''User not found'',
                    Data = [(''service'', JStr user_serviceName),
                            (''endpoint'', JStr ''/users/:id''),
                            (''user_id'', JInt userID),
                            (''error'', JStr ''user_not_found''),
                            (''trace_id'', JStr tid)]\<rparr>])))"

section \<open>order-service\<close>

definition order_serviceName :: string where
  "order_serviceName = ''order-service''"

text \<open>
  What a request to order-service reads from outside the handler: \<open>Do\<close> is
  \<^verbatim>\<open>httpClient.Do\<close>, acting on the state \<open>'w\<close> of whatever is behind the network and
  returning \<open>None\<close> for a transport error; \<open>Decode\<close> is the JSON decoding of a response
  body into a \<^verbatim>\<open>ProductResponse\<close> (\<open>None\<close> when it fails); \<open>float64\<close> is the conversion
  \<^verbatim>\<open>float64(n)\<close>; \<open>isFinite\<close> tells the \<^verbatim>\<open>float64\<close> values that are numbers from
  \<^verbatim>\<open>+Inf\<close>, \<^verbatim>\<open>-Inf\<close> and \<^verbatim>\<open>NaN\<close>, which \<^verbatim>\<open>json.Marshal\<close> refuses with an
  \<^verbatim>\<open>UnsupportedValueError\<close>; \<open>renderFailed\<close> is the status gin answers with, without a
  body, when \<^verbatim>\<open>c.JSON\<close> cannot marshal its object (gin has set the status passed to
  \<^verbatim>\<open>c.JSON\<close> before rendering and then records the error and aborts, or, in the releases
  whose \<^verbatim>\<open>Render\<close> panics, answers 500 through \<^verbatim>\<open>gin.Recovery\<close>); \<open>traceID\<close> is the
  trace id of the request's span; \<open>createdAt\<close> and \<open>updatedAt\<close> are the two readings of
  \<^verbatim>\<open>time.Now()\<close>.
\<close>

record ('p, 'w) env =
  Do :: "request \<Rightarrow> 'w \<Rightarrow> 'p response option \<times> 'w"
  Decode :: "'p json \<Rightarrow> 'p ProductResponse option"
  float64 :: "go_int \<Rightarrow> 'p"
  isFinite :: "'p \<Rightarrow> bool"
  renderFailed :: nat
  traceID :: string
  createdAt :: nat
  updatedAt :: nat

text \<open>The package-level variables \<^verbatim>\<open>orders\<close> and \<^verbatim>\<open>orderCounter\<close>.\<close>

record 'p store =
  orders :: "'p Order list"
  orderCounter :: go_int

definition initialStore :: "'p store" where
  "initialStore = \<lparr>orders = [], orderCounter = 1\<rparr>"

definition marshalOrderItem :: "'p OrderItem \<Rightarrow> 'p json" where
  "marshalOrderItem it = JObj
    [(''product_id'', JInt (OrderItem.ProductID it)),
     (''quantity'', JInt (OrderItem.Quantity it)),
     (''price'', JNum (OrderItem.Price it)),
     (''name'', JStr (OrderItem.Name it))]"

text \<open>
  \<^verbatim>\<open>json.Marshal\<close> of an \<^verbatim>\<open>Order\<close>. It fails (\<open>None\<close>) when the total or the price of an
  item is not a finite number. The handler builds the items with \<^verbatim>\<open>append\<close> on a nil
  slice, so an order without items marshals its items as \<^verbatim>\<open>null\<close>; the payment and
  shipping ids are \<^verbatim>\<open>omitempty\<close>.
\<close>

definition marshalOrder :: "('p \<Rightarrow> bool) \<Rightarrow> 'p Order \<Rightarrow> 'p json option" where
  "marshalOrder finite_float order =
    (if list_all (\<lambda>it. finite_float (OrderItem.Price it)) (Order.Items order)
        \<and> finite_float (Total order)
     then Some (JObj
       ([(''id'', JInt (Order.ID order)),
         (''user_id'', JInt (Order.UserID order)),
         (''items'', if Order.Items order = [] then JNull
                     else JArr (map marshalOrderItem (Order.Items order))),
         (''status'', JStr (Order.Status order)),
         (''total'', JNum (Total order)),
         (''created_at'', JTime (CreatedAt order)),
         (''updated_at'', JTime (UpdatedAt order))]
        @ (if PaymentID order = [] then [] else [(''payment_id'', JStr (PaymentID order))])
        @ (if ShippingID order = [] then [] else [(''shipping_id'', JStr (ShippingID order))])))
     else None)"

text \<open>
  \<^verbatim>\<open>c.JSON(code, obj)\<close> for an object whose marshalling may fail: the response carries
  the marshalled object, or no body at all.
\<close>

definition cJSON :: "('p, 'w) env \<Rightarrow> nat \<Rightarrow> 'p json option \<Rightarrow> 'p response" where
  "cJSON e code marshalled =
    (case marshalled of
       Some j \<Rightarrow> \<lparr>status = code, body = Some j\<rparr>
     | None \<Rightarrow> \<lparr>status = renderFailed e, body = None\<rparr>)"

text \<open>
  The three helper calls. A Go result \<^verbatim>\<open>(bool, error)\<close> is a \<open>bool option\<close> and
  \<^verbatim>\<open>(*ProductResponse, error)\<close> a \<open>ProductResponse option\<close>, \<open>None\<close> for a non-nil error.
  Decoding a response without a body is an error.
\<close>

definition validateUser ::
  "('p, 'w) env \<Rightarrow> go_int \<Rightarrow> 'w \<Rightarrow> (bool option \<times> 'w) \<times> 'p event list" where
  "validateUser e userID w =
    (case Do e (GET_users userID) w of
       (resp, w') \<Rightarrow>
         withSpan ''validate_user_call''
           ((case resp of None \<Rightarrow> None | Some r \<Rightarrow> Some (status r = 200), w'),
            [Call (GET_users userID) resp]))"

definition getProductDetails ::
  "('p, 'w) env \<Rightarrow> go_int \<Rightarrow> 'w \<Rightarrow> ('p ProductResponse option \<times> 'w) \<times> 'p event list" where
  "getProductDetails e productID w =
    (case Do e (GET_products productID) w of
       (resp, w') \<Rightarrow>
         withSpan ''get_product_details_call''
           ((case resp of
               None \<Rightarrow> None
             | Some r \<Rightarrow>
                 if status r \<noteq> 200 then None
                 else (case body r of None \<Rightarrow> None | Some j \<Rightarrow> Decode e j), w'),
            [Call (GET_products productID) resp]))"

definition reserveInventory ::
  "('p, 'w) env \<Rightarrow> go_int \<Rightarrow> go_int \<Rightarrow> go_int \<Rightarrow> 'w
    \<Rightarrow> (bool option \<times> 'w) \<times> 'p event list" where
  "reserveInventory e productID quantity orderID w =
    (case Do e (POST_inventory_reserve productID quantity orderID) w of
       (resp, w') \<Rightarrow>
         withSpan ''reserve_inventory_call''
           ((case resp of None \<Rightarrow> None | Some r \<Rightarrow> Some (status r = 200), w'),
            [Call (POST_inventory_reserve productID quantity orderID) resp]))"

text \<open>
  The body of the \<^verbatim>\<open>for _, item := range req.Items\<close> loop of \<^verbatim>\<open>createOrderHandler\<close> up to
  the \<^verbatim>\<open>append\<close>: \<open>Inl\<close> is the response of an early \<^verbatim>\<open>return\<close>, \<open>Inr\<close> the order item.
\<close>

definition orderItemStep ::
  "('p, 'w) env \<Rightarrow> go_int \<Rightarrow> CreateOrderItem \<Rightarrow> 'w
    \<Rightarrow> (('p response + 'p OrderItem) \<times> 'w) \<times> 'p event list" where
  "orderItemStep e counter item w =
    (case getProductDetails e (CreateOrderItem.ProductID item) w of
       ((None, w1), ev1) \<Rightarrow>
         ((Inl \<lparr>status = 400, body = Some (errorJSON
                  (''Product '' @ itoa (CreateOrderItem.ProductID item) @ '' not found''))\<rparr>, w1),
          ev1 @
          [Log \<lparr>Level = ErrorLevel, Message = ''Failed to fetch product details'',
                Data = [(''service'', JStr order_serviceName),
                        (''endpoint'', JStr ''/orders''),
                        (''product_id'', JInt (CreateOrderItem.ProductID item)),
                        (''error'', JStr ''product_fetch_failed''),
                        (''trace_id'', JStr (traceID e))]\<rparr>])
     | ((Some product, w1), ev1) \<Rightarrow>
        (case reserveInventory e (CreateOrderItem.ProductID item)
                (CreateOrderItem.Quantity item) counter w1 of
           ((reserved, w2), ev2) \<Rightarrow>
             if reserved \<noteq> Some True then
               ((Inl \<lparr>status = 409, body = Some (errorJSON
                        (''Insufficient stock for product ''
                          @ itoa (CreateOrderItem.ProductID item)))\<rparr>, w2),
                ev1 @ ev2 @
                [Log \<lparr>Level = ErrorLevel, Message = ''Failed to reserve inventory'',
                      Data = [(''service'', JStr order_serviceName),
                              (''endpoint'', JStr ''/orders''),
                              (''product_id'', JInt (CreateOrderItem.ProductID item)),
                              (''quantity'', JInt (CreateOrderItem.Quantity item)),
                              (''error'', JStr ''inventory_reservation_failed''),
                              (''trace_id'', JStr (traceID e))]\<rparr>])
             else
               ((Inr \<lparr>OrderItem.ProductID = CreateOrderItem.ProductID item,
                      Quantity = CreateOrderItem.Quantity item,
                      Price = ProductResponse.Price product,
                      Name = ProductResponse.Name product\<rparr>, w2),
                ev1 @ ev2)))"

text \<open>The loop itself, with \<^verbatim>\<open>orderItems\<close> and \<^verbatim>\<open>total\<close> as accumulators.\<close>

fun orderItemsLoop ::
  "('p::{plus,times}, 'w) env \<Rightarrow> go_int \<Rightarrow> CreateOrderItem list \<Rightarrow> 'p OrderItem list \<Rightarrow> 'p \<Rightarrow> 'w
    \<Rightarrow> (('p response + 'p OrderItem list \<times> 'p) \<times> 'w) \<times> 'p event list" where
  "orderItemsLoop e counter [] orderItems tot w = ((Inr (orderItems, tot), w), [])"
| "orderItemsLoop e counter (item # items) orderItems tot w =
    (case orderItemStep e counter item w of
       ((Inl resp, w'), ev) \<Rightarrow> ((Inl resp, w'), ev)
     | ((Inr orderItem, w'), ev) \<Rightarrow>
        (case orderItemsLoop e counter items (orderItems @ [orderItem])
                (tot + OrderItem.Price orderItem * float64 e (CreateOrderItem.Quantity item)) w' of
           (r, ev') \<Rightarrow> (r, ev @ ev')))"

text \<open>
  \<^verbatim>\<open>createOrderHandler\<close>. \<open>req\<close> is the result of \<^verbatim>\<open>c.ShouldBindJSON(&req)\<close>. The result
  carries the store and the state behind the network as the handler leaves them.
\<close>

definition createOrderHandler ::
  "('p::{zero,plus,times}, 'w) env \<Rightarrow> CreateOrderRequest option \<Rightarrow> 'p store \<Rightarrow> 'w
    \<Rightarrow> ('p response \<times> 'p store \<times> 'w) \<times> 'p event list" where
  "createOrderHandler e req st w = withSpan ''create_order''
    (case req of
       None \<Rightarrow> ((\<lparr>status = 400, body = Some (errorJSON ''Invalid request'')\<rparr>, st, w), [])
     | Some r \<Rightarrow>
        (case validateUser e (CreateOrderRequest.UserID r) w of
           ((userValid, w1), ev1) \<Rightarrow>
             if userValid \<noteq> Some True then
               ((\<lparr>status = 400, body = Some (errorJSON ''Invalid user'')\<rparr>, st, w1),
                ev1 @
                [Log \<lparr>Level = ErrorLevel,
                      Message = ''User validation failed during order creation'',
                      Data = [(''service'', JStr order_serviceName),
                              (''endpoint'', JStr ''/orders''),
                              (''user_id'', JInt (CreateOrderRequest.UserID r)),
                              (''error'', JStr ''user_validation_failed''),
                              (''trace_id'', JStr (traceID e))]\<rparr>])
             else
               (case orderItemsLoop e (orderCounter st) (CreateOrderRequest.Items r) [] 0 w1 of
                  ((Inl resp, w2), ev2) \<Rightarrow> ((resp, st, w2), ev1 @ ev2)
                | ((Inr (orderItems, tot), w2), ev2) \<Rightarrow>
                    (let order = \<lparr>Order.ID = orderCounter st,
                                  UserID = CreateOrderRequest.UserID r,
                                  Items = orderItems,
                                  Status = ''pending'',
                                  Total = tot,
                                  CreatedAt = createdAt e,
                                  UpdatedAt = updatedAt e,
                                  PaymentID = '''',
                                  ShippingID = ''''\<rparr>
                     in ((cJSON e 201 (marshalOrder (isFinite e) order),
                          \<lparr>orders = orders st @ [order], orderCounter = orderCounter st + 1\<rparr>,
                          w2),
                         ev1 @ ev2 @
                         [Mutate ''orders'', Mutate ''orderCounter'',
                          Log \<lparr>Level = InfoLevel, Message = ''Order created successfully'',
                               Data = [(''service'', JStr order_serviceName),
                                       (''endpoint'', JStr ''/orders''),
                                       (''order_id'', JInt (Order.ID order)),
                                       (''user_id'', JInt (CreateOrderRequest.UserID r)),
                                       (''item_count'', JInt (of_nat (length orderItems))),
                                       (''total'', JNum tot),
                                       (''trace_id'', JStr (traceID e))]\<rparr>])))))"

text \<open>
  \<^verbatim>\<open>updateOrderStatusHandler\<close>. \<open>req\<close> is the \<^verbatim>\<open>Status\<close> of the bound request struct and
  \<open>now\<close> the reading of \<^verbatim>\<open>time.Now()\<close>. The result carries the orders table as the handler
  leaves it; the two assignments to \<^verbatim>\<open>orders[i]\<close> are two mutations.
\<close>

definition updateOrderStatusHandler ::
  "('p, 'w) env \<Rightarrow> go_int option \<Rightarrow> string option \<Rightarrow> nat \<Rightarrow> 'p Order list
    \<Rightarrow> ('p response \<times> 'p Order list) \<times> 'p event list" where
  "updateOrderStatusHandler e idParam req now os = withSpan ''update_order_status''
    (case idParam of
       None \<Rightarrow> ((\<lparr>status = 400, body = Some (errorJSON ''Invalid order ID'')\<rparr>, os), [])
     | Some orderID \<Rightarrow>
        (case req of
           None \<Rightarrow> ((\<lparr>status = 400, body = Some (errorJSON ''Invalid request'')\<rparr>, os), [])
         | Some newStatus \<Rightarrow>
            (case findIndex (\<lambda>order. Order.ID order = orderID) os of
               Some i \<Rightarrow>
                 (let oldStatus = Order.Status (os ! i);
                      os' = os[i := (os ! i)\<lparr>Order.Status := newStatus, UpdatedAt := now\<rparr>]
                  in ((cJSON e 200 (marshalOrder (isFinite e) (os' ! i)), os'),
                      [Mutate ''orders'', Mutate ''orders'',
                       Log \<lparr>Level = InfoLevel, Message = ''Order status updated successfully'',
                            Data = [(''service'', JStr order_serviceName),
                                    (''endpoint'', JStr ''/orders/:id/status''),
                                    (''order_id'', JInt orderID),
                                    (''old_status'', JStr oldStatus),
                                    (''new_status'', JStr newStatus),
                                    (''trace_id'', JStr (traceID e))]\<rparr>]))
             | None \<Rightarrow>
                 ((\<lparr>status = 404, body = Some (errorJSON ''Order not found'')\<rparr>, os), []))))"

text \<open>
  \<^verbatim>\<open>cancelOrderHandler\<close>. \<open>draw\<close> is the value of \<^verbatim>\<open>rand.Intn(100)\<close>; \<open>now1\<close>, \<open>now2\<close> and
  \<open>now3\<close> are the three readings of \<^verbatim>\<open>time.Now()\<close>. The log line reads the copy of the
  order that \<^verbatim>\<open>range\<close> made before the assignments.
\<close>

definition cancelOrderHandler ::
  "('p, 'w) env \<Rightarrow> go_int option \<Rightarrow> nat \<Rightarrow> nat \<Rightarrow> nat \<Rightarrow> nat \<Rightarrow> 'p Order list
    \<Rightarrow> ('p response \<times> 'p Order list) \<times> 'p event list" where
  "cancelOrderHandler e idParam draw now1 now2 now3 os = withSpan ''cancel_order''
    (case idParam of
       None \<Rightarrow> ((\<lparr>status = 400, body = Some (errorJSON ''Invalid order ID'')\<rparr>, os), [])
     | Some orderID \<Rightarrow>
        if draw < 15 then
          ((\<lparr>status = 409, body = Some (errorJSON ''Cannot cancel shipped order'')\<rparr>, os),
           [Log \<lparr>Level = ErrorLevel,
                 Message = ''Order cancellation failed - order already shipped'',
                 Data = [(''service'', JStr order_serviceName),
                         (''endpoint'', JStr ''/orders/:id/cancel''),
                         (''order_id'', JInt orderID),
                         (''error'', JStr ''order_already_shipped''),
                         (''trace_id'', JStr (traceID e))]\<rparr>])
        else
          (case findIndex (\<lambda>order. Order.ID order = orderID) os of
             Some i \<Rightarrow>
               (let order = os ! i in
                ((\<lparr>status = 200, body = Some (JObj
                     [(''cancelled_at'', JTime now3),
                      (''order_id'', JInt orderID),
                      (''status'', JStr ''cancelled'')])\<rparr>,
                  os[i := (os ! i)\<lparr>Order.Status := ''cancelled'', UpdatedAt := now1\<rparr>]),
                 [Mutate ''orders'', Mutate ''orders'',
                  Log \<lparr>Level = InfoLevel, Message = ''Order cancelled successfully'',
                       Data = [(''service'', JStr order_serviceName),
                               (''endpoint'', JStr ''/orders/:id/cancel''),
                               (''order_id'', JInt orderID),
                               (''user_id'', JInt (Order.UserID order)),
                               (''total'', JNum (Total order)),
                               (''cancelled_at'', JTime now2),
                               (''trace_id'', JStr (traceID e))]\<rparr>]))
           | None \<Rightarrow>
               ((\<lparr>status = 404, body = Some (errorJSON ''Order not found'')\<rparr>, os), [])))"

text \<open>\<^verbatim>\<open>json.Marshal\<close> of a \<^verbatim>\<open>Payment\<close>; it fails when the amount is not a finite number.\<close>

definition marshalPayment :: "('p \<Rightarrow> bool) \<Rightarrow> 'p Payment \<Rightarrow> 'p json option" where
  "marshalPayment finite_float payment =
    (if finite_float (Payment.Amount payment)
     then Some (JObj
       [(''id'', JStr (Payment.ID payment)),
        (''order_id'', JInt (Payment.OrderID payment)),
        (''amount'', JNum (Payment.Amount payment)),
        (''status'', JStr (Payment.Status payment)),
        (''payment_method'', JStr (Payment.PaymentMethod payment)),
        (''processed_at'', JTime (ProcessedAt payment))])
     else None)"

text \<open>
  \<^verbatim>\<open>processPaymentHandler\<close>. \<open>draw1\<close> and \<open>draw2\<close> are the values of \<^verbatim>\<open>rand.Intn(2000)\<close> and
  \<^verbatim>\<open>rand.Intn(100)\<close>; \<open>now1\<close>, \<open>now2\<close> and \<open>now3\<close> are the three readings of \<^verbatim>\<open>time.Now()\<close>,
  the first one in seconds. The handler keeps a pointer to \<^verbatim>\<open>orders[i]\<close>, sleeps for the
  processing time, and then assigns three fields through the pointer: three mutations.
  The processing time is logged as a \<^verbatim>\<open>time.Duration\<close>, a number of nanoseconds.
\<close>

definition processPaymentHandler ::
  "('p, 'w) env \<Rightarrow> go_int option \<Rightarrow> 'p PaymentRequest option \<Rightarrow> nat \<Rightarrow> nat \<Rightarrow> nat \<Rightarrow> nat \<Rightarrow> nat
    \<Rightarrow> 'p Order list \<Rightarrow> ('p response \<times> 'p Order list) \<times> 'p event list" where
  "processPaymentHandler e idParam req draw1 draw2 now1 now2 now3 os = withSpan ''process_payment''
    (case idParam of
       None \<Rightarrow> ((\<lparr>status = 400, body = Some (errorJSON ''Invalid order ID'')\<rparr>, os), [])
     | Some orderID \<Rightarrow>
        (case req of
           None \<Rightarrow> ((\<lparr>status = 400, body = Some (errorJSON ''Invalid request'')\<rparr>, os), [])
         | Some request \<Rightarrow>
            (case findIndex (\<lambda>order. Order.ID order = orderID) os of
               None \<Rightarrow>
                 ((\<lparr>status = 404, body = Some (errorJSON ''Order not found'')\<rparr>, os), [])
             | Some i \<Rightarrow>
                 (let processingTime = JInt (of_nat ((draw1 + 500) * 1000000)) in
                  if draw2 < 15 then
                    ((\<lparr>status = 402, body = Some (errorJSON ''Payment declined'')\<rparr>, os),
                     [Log \<lparr>Level = ErrorLevel, Message = ''Payment processing failed'',
                           Data = [(''service'', JStr order_serviceName),
                                   (''endpoint'', JStr ''/payments/:id''),
                                   (''order_id'', JInt orderID),
                                   (''payment_method'', JStr (PaymentRequest.PaymentMethod request)),
                                   (''amount'', JNum (PaymentRequest.Amount request)),
                                   (''processing_time'', processingTime),
                                   (''error'', JStr ''payment_gateway_declined''),
                                   (''trace_id'', JStr (traceID e))]\<rparr>])
                  else
                    (let payment = \<lparr>Payment.ID = ''PAY-'' @ itoa orderID @ ''-'' @ digits now1,
                                    OrderID = orderID,
                                    Amount = PaymentRequest.Amount request,
                                    Status = ''completed'',
                                    PaymentMethod = PaymentRequest.PaymentMethod request,
                                    ProcessedAt = now2\<rparr>
                     in ((cJSON e 200 (marshalPayment (isFinite e) payment),
                          os[i := (os ! i)\<lparr>PaymentID := Payment.ID payment,
                                            Order.Status := ''paid'',
                                            UpdatedAt := now3\<rparr>]),
                         [Mutate ''orders'', Mutate ''orders'', Mutate ''orders'',
                          Log \<lparr>Level = InfoLevel, Message = ''Payment processed successfully'',
                               Data = [(''service'', JStr order_serviceName),
                                       (''endpoint'', JStr ''/payments/:id''),
                                       (''order_id'', JInt orderID),
                                       (''payment_id'', JStr (Payment.ID payment)),
                                       (''payment_method'', JStr (PaymentRequest.PaymentMethod request)),
                                       (''amount'', JNum (PaymentRequest.Amount request)),
                                       (''processing_time'', processingTime),
                                       (''trace_id'', JStr (traceID e))]\<rparr>]))))))"

text \<open>The outbound calls of a run, and those among them of each kind.\<close>

definition calls :: "'p event list \<Rightarrow> (request \<times> 'p response option) list" where
  "calls es = concat (map (\<lambda>e. case e of Call rq rs \<Rightarrow> [(rq, rs)] | _ \<Rightarrow> []) es)"

fun isLookup :: "request \<Rightarrow> bool" where
  "isLookup (GET_products _) = True"
| "isLookup _ = False"

fun isReserve :: "request \<Rightarrow> bool" where
  "isReserve (POST_inventory_reserve _ _ _) = True"
| "isReserve _ = False"

fun isRelease :: "request \<Rightarrow> bool" where
  "isRelease (POST_inventory_release _ _ _) = True"
| "isRelease _ = False"

definition lookups :: "'p event list \<Rightarrow> nat" where
  "lookups es = length (filter (\<lambda>c. isLookup (fst c)) (calls es))"

definition reservations :: "'p event list \<Rightarrow> nat" where
  "reservations es = length (filter (\<lambda>c. isReserve (fst c)) (calls es))"

text \<open>
  A reservation call has failed, as the handler sees it, when \<^verbatim>\<open>Do\<close> returned an error or
  the status of the response is not 200.
\<close>

definition reserveFailed :: "request \<times> 'p response option \<Rightarrow> bool" where
  "reserveFailed c =
    (isReserve (fst c) \<and> (case snd c of None \<Rightarrow> True | Some r \<Rightarrow> status r \<noteq> 200))"

section \<open>The three services together\<close>

text \<open>
  The state behind order-service's network: the tables of user-service and
  product-service. \<open>meshDo\<close> delivers a request to the handler that serves its route,
  with the integers of the URL and payload as \<^verbatim>\<open>strconv.Atoi\<close> and \<^verbatim>\<open>ShouldBindJSON\<close>
  give them back, and returns that handler's response; the trace id travels with the
  request. Delivery is reliable here; the routes that order-service never calls are not
  served.
\<close>

record 'p mesh =
  meshUsers :: "User list"
  meshProducts :: "'p Product list"

definition meshDo :: "string \<Rightarrow> request \<Rightarrow> 'p mesh \<Rightarrow> 'p response option \<times> 'p mesh" where
  "meshDo tid rq w =
    (case rq of
       GET_users n \<Rightarrow> (Some (fst (getUserHandler tid (Some n) (meshUsers w))), w)
     | GET_products n \<Rightarrow> (Some (fst (getProductHandler tid (Some n) (meshProducts w))), w)
     | POST_inventory_reserve n q oid \<Rightarrow>
         (case reserveInventoryHandler tid (Some n)
                 (Some \<lparr>InventoryRequest.Quantity = q, OrderID = oid\<rparr>) (meshProducts w) of
            ((resp, ps'), _) \<Rightarrow> (Some resp, w\<lparr>meshProducts := ps'\<rparr>))
     | POST_inventory_release n q oid \<Rightarrow>
         (case releaseInventoryHandler tid (Some n)
                 (Some \<lparr>InventoryRequest.Quantity = q, OrderID = oid\<rparr>) (meshProducts w) of
            ((resp, ps'), _) \<Rightarrow> (Some resp, w\<lparr>meshProducts := ps'\<rparr>))
     | _ \<Rightarrow> (None, w))"

text \<open>
  How the numbers of a JSON text read back into Go values: \<open>ofInt\<close> is \<^verbatim>\<open>float64(n)\<close>, which
  is also the \<^verbatim>\<open>float64\<close> that the text of the integer \<open>n\<close> parses to; \<open>finiteFloat\<close> tells
  the finite values; \<open>toInt\<close> is the \<^verbatim>\<open>int\<close> that the JSON text of a \<^verbatim>\<open>float64\<close> parses to,
  if it is the text of an integer in range.
\<close>

record 'p wire =
  ofInt :: "go_int \<Rightarrow> 'p"
  finiteFloat :: "'p \<Rightarrow> bool"
  toInt :: "'p \<Rightarrow> go_int option"

text \<open>
  \<^verbatim>\<open>json.NewDecoder(resp.Body).Decode(&product)\<close> for a \<^verbatim>\<open>ProductResponse\<close>. The body must
  be an object or \<^verbatim>\<open>null\<close>. The members of the object are taken in order; a key names a
  field when it equals the field's JSON name up to the case of its ASCII letters, and
  other keys are skipped; \<^verbatim>\<open>null\<close> leaves the field as it is, a value of the right kind
  overwrites it (so the last occurrence of a repeated key wins), and a value of the wrong
  kind is an error. Fields that are never set keep their zero value.
\<close>

definition foldKey :: "string \<Rightarrow> string" where
  "foldKey k = map (\<lambda>c. if 65 \<le> (of_char c :: nat) \<and> (of_char c :: nat) \<le> 90
                          then char_of ((of_char c :: nat) + 32) else c) k"

definition decodeInt :: "'p wire \<Rightarrow> 'p json \<Rightarrow> go_int option" where
  "decodeInt wr v = (case v of JInt n \<Rightarrow> Some n | JNum x \<Rightarrow> toInt wr x | _ \<Rightarrow> None)"

definition decodeFloat :: "'p wire \<Rightarrow> 'p json \<Rightarrow> 'p option" where
  "decodeFloat wr v = (case v of JNum x \<Rightarrow> Some x | JInt n \<Rightarrow> Some (ofInt wr n) | _ \<Rightarrow> None)"

definition decodeString :: "'p json \<Rightarrow> string option" where
  "decodeString v = (case v of JStr s \<Rightarrow> Some s | _ \<Rightarrow> None)"

fun decodeFields ::
  "'p wire \<Rightarrow> (string \<times> 'p json) list \<Rightarrow> 'p ProductResponse \<Rightarrow> 'p ProductResponse option" where
  "decodeFields wr [] product = Some product"
| "decodeFields wr ((k, v) # kvs) product =
    (if v = JNull then decodeFields wr kvs product
     else if foldKey k = ''id'' then
       (case decodeInt wr v of
          None \<Rightarrow> None
        | Some n \<Rightarrow> decodeFields wr kvs (product\<lparr>ProductResponse.ID := n\<rparr>))
     else if foldKey k = ''name'' then
       (case decodeString v of
          None \<Rightarrow> None
        | Some s \<Rightarrow> decodeFields wr kvs (product\<lparr>ProductResponse.Name := s\<rparr>))
     else if foldKey k = ''price'' then
       (case decodeFloat wr v of
          None \<Rightarrow> None
        | Some x \<Rightarrow> decodeFields wr kvs (product\<lparr>ProductResponse.Price := x\<rparr>))
     else if foldKey k = ''stock'' then
       (case decodeInt wr v of
          None \<Rightarrow> None
        | Some n \<Rightarrow> decodeFields wr kvs (product\<lparr>ProductResponse.Stock := n\<rparr>))
     else decodeFields wr kvs product)"

definition decodeProductResponse :: "'p::zero wire \<Rightarrow> 'p json \<Rightarrow> 'p ProductResponse option" where
  "decodeProductResponse wr j =
    (case j of
       JObj kvs \<Rightarrow>
         decodeFields wr kvs \<lparr>ProductResponse.ID = 0, Name = [], Price = 0, Stock = 0\<rparr>
     | JNull \<Rightarrow> Some \<lparr>ProductResponse.ID = 0, Name = [], Price = 0, Stock = 0\<rparr>
     | _ \<Rightarrow> None)"

text \<open>
  order-service with the two other services behind its HTTP client; \<open>failed\<close> is the
  status of a response that gin could not render.
\<close>

definition meshEnv :: "string \<Rightarrow> 'p::zero wire \<Rightarrow> nat \<Rightarrow> nat \<Rightarrow> nat \<Rightarrow> ('p, 'p mesh) env" where
  "meshEnv tid wr failed t1 t2 =
    \<lparr>Do = meshDo tid, Decode = decodeProductResponse wr, float64 = ofInt wr,
     isFinite = finiteFloat wr, renderFailed = failed, traceID = tid,
     createdAt = t1, updatedAt = t2\<rparr>"

text \<open>
  A stand-in for \<^verbatim>\<open>float64\<close> in concrete runs: a rational number, the two infinities or
  \<^verbatim>\<open>NaN\<close>. Results that are numbers are kept exact, without the rounding to 53 bits, and
  a result at or beyond \<open>2\<^sup>1\<^sup>0\<^sup>2\<^sup>4 - 2\<^sup>9\<^sup>7\<^sup>0\<close>, where IEEE 754 arithmetic rounds to an
  infinity, is that infinity.
\<close>

datatype f64 = Finite rat | PosInf | NegInf | NaN

definition overflow :: "rat \<Rightarrow> f64" where
  "overflow r = (if 2 ^ 1024 - 2 ^ 970 \<le> r then PosInf
                 else if r \<le> - (2 ^ 1024 - 2 ^ 970) then NegInf
                 else Finite r)"

definition signedInf :: "rat \<Rightarrow> f64" where
  "signedInf r = (if r = 0 then NaN else if 0 < r then PosInf else NegInf)"

instantiation f64 :: "{zero, plus, times}"
begin

definition zero_f64 :: f64 where
  "zero_f64 = Finite 0"

fun plus_f64 :: "f64 \<Rightarrow> f64 \<Rightarrow> f64" where
  "plus_f64 (Finite a) (Finite b) = overflow (a + b)"
| "plus_f64 NaN y = NaN"
| "plus_f64 x NaN = NaN"
| "plus_f64 PosInf NegInf = NaN"
| "plus_f64 NegInf PosInf = NaN"
| "plus_f64 PosInf y = PosInf"
| "plus_f64 NegInf y = NegInf"
| "plus_f64 x PosInf = PosInf"
| "plus_f64 x NegInf = NegInf"

fun times_f64 :: "f64 \<Rightarrow> f64 \<Rightarrow> f64" where
  "times_f64 (Finite a) (Finite b) = overflow (a * b)"
| "times_f64 NaN y = NaN"
| "times_f64 x NaN = NaN"
| "times_f64 (Finite a) PosInf = signedInf a"
| "times_f64 (Finite a) NegInf = signedInf (- a)"
| "times_f64 PosInf (Finite b) = signedInf b"
| "times_f64 NegInf (Finite b) = signedInf (- b)"
| "times_f64 PosInf PosInf = PosInf"
| "times_f64 PosInf NegInf = NegInf"
| "times_f64 NegInf PosInf = NegInf"
| "times_f64 NegInf NegInf = PosInf"

instance ..

end

definition f64wire :: "f64 wire" where
  "f64wire =
    \<lparr>ofInt = (\<lambda>n. Finite (of_int (sint n))),
     finiteFloat = (\<lambda>x. case x of Finite r \<Rightarrow> True | _ \<Rightarrow> False),
     toInt = (\<lambda>x. case x of
                Finite r \<Rightarrow>
                  if of_int \<lfloor>r\<rfloor> = r \<and> - (2 ^ 63) \<le> \<lfloor>r\<rfloor> \<and> \<lfloor>r\<rfloor> < 2 ^ 63
                  then Some (word_of_int \<lfloor>r\<rfloor>) else None
              | _ \<Rightarrow> None)\<rparr>"

text \<open>
  What a sequence of successful reservations does to the products table: each item finds
  the first product with its id, needs at least its quantity in stock (signed
  comparison), and takes it off the stock.
\<close>

fun reserveAll :: "'p Product list \<Rightarrow> CreateOrderItem list \<Rightarrow> 'p Product list option" where
  "reserveAll ps [] = Some ps"
| "reserveAll ps (item # items) =
    (case findIndex (\<lambda>p. Product.ID p = CreateOrderItem.ProductID item) ps of
       None \<Rightarrow> None
     | Some i \<Rightarrow>
         if Product.Stock (ps ! i) <s CreateOrderItem.Quantity item then None
         else reserveAll
                (ps[i := (ps ! i)\<lparr>Product.Stock :=
                            Product.Stock (ps ! i) - CreateOrderItem.Quantity item\<rparr>])
                items)"

text \<open>The catalog entries of the items of a request, \<open>None\<close> if one is missing.\<close>

fun catalogEntries :: "'p Product list \<Rightarrow> CreateOrderItem list \<Rightarrow> 'p Product list option" where
  "catalogEntries ps [] = Some []"
| "catalogEntries ps (item # items) =
    (case find (\<lambda>p. Product.ID p = CreateOrderItem.ProductID item) ps of
       None \<Rightarrow> None
     | Some p \<Rightarrow> map_option ((#) p) (catalogEntries ps items))"


definition orderItemsOf :: "'p Product list \<Rightarrow> CreateOrderItem list \<Rightarrow> 'p OrderItem list" where
  "orderItemsOf entries items =
    map (\<lambda>(p, item). \<lparr>OrderItem.ProductID = CreateOrderItem.ProductID item,
                       Quantity = CreateOrderItem.Quantity item,
                       Price = Product.Price p,
                       Name = Product.Name p\<rparr>)
      (zip entries items)"

text \<open>A product without its stock: what a reservation leaves alone.\<close>

definition unstock :: "'p Product \<Rightarrow> 'p Product" where
  "unstock p = p\<lparr>Product.Stock := 0\<rparr>"

section \<open>The other handlers of the three services\<close>























section \<open>traffic-generator\<close>












text \<open>The health polls of an event list that were sent to a given URL, with their answers.\<close>

definition polls :: "string \<Rightarrow> 'p event list \<Rightarrow> 'p response option list" where
  "polls url es = map snd (filter (\<lambda>c. fst c = HTTP ''GET'' url []) (calls es))"













































text \<open>
  Span discipline of an event list. \<open>closes open es\<close> follows the events with the stack
  of the spans that are open: a start opens a span, an end must end the span opened
  last, and at the end no span may be left open. So \<open>closes [] es\<close> says that every
  span started in \<open>es\<close> is ended exactly once, and nothing else is ended.
\<close>

fun closes :: "string list \<Rightarrow> 'p event list \<Rightarrow> bool" where
  "closes opn [] = (opn = [])"
| "closes opn (SpanStart name # es) = closes (name # opn) es"
| "closes opn (SpanEnd name # es) =
    (case opn of [] \<Rightarrow> False | cur # rest \<Rightarrow> cur = name \<and> closes rest es)"
| "closes opn (e # es) = closes opn es"

text \<open>
  Lock discipline of an event list. \<open>guarded held es\<close> follows the events with the
  mutexes that are held: \<^verbatim>\<open>Lock\<close> adds one, \<^verbatim>\<open>Unlock\<close> gives it back, and an assignment
  to a table needs some mutex to be held. So \<open>guarded [] es\<close> says that every mutation
  in \<open>es\<close> falls between a \<^verbatim>\<open>Lock\<close> and its \<^verbatim>\<open>Unlock\<close>.
\<close>

fun guarded :: "string list \<Rightarrow> 'p event list \<Rightarrow> bool" where
  "guarded held [] = True"
| "guarded held (Lock m # es) = guarded (m # held) es"
| "guarded held (Unlock m # es) = guarded (remove1 m held) es"
| "guarded held (Mutate t # es) = (held \<noteq> [] \<and> guarded held es)"
| "guarded held (e # es) = guarded held es"

fun isMutate :: "'p event \<Rightarrow> bool" where
  "isMutate (Mutate _) = True"
| "isMutate _ = False"

fun isLocking :: "'p event \<Rightarrow> bool" where
  "isLocking (Lock _) = True"
| "isLocking (Unlock _) = True"
| "isLocking _ = False"

text \<open>A log line carries \<^verbatim>\<open>error=e\<close> when its \<^verbatim>\<open>error\<close> field is the string \<open>e\<close>.\<close>

definition carriesError :: "string \<Rightarrow> 'p LogRecord \<Rightarrow> bool" where
  "carriesError e r = (map_of (Data r) ''error'' = Some (JStr e))"

section \<open>Properties of product-service\<close>

lemma findIndex_Some:
  "findIndex P xs = Some i \<Longrightarrow> i < length xs \<and> P (xs ! i) \<and> find P xs = Some (xs ! i)"
proof (induction xs arbitrary: i)
  case Nil
  then show ?case by simp
next
  case (Cons x xs)
  show ?case
  proof (cases "P x")
    case True
    with Cons.prems show ?thesis by simp
  next
    case False
    with Cons.prems obtain j where j: "findIndex P xs = Some j" "i = Suc j"
      by auto
    with Cons.IH [of j] False show ?thesis by simp
  qed
qed

lemma find_findIndex:
  "find P xs = Some x \<Longrightarrow> \<exists>i. findIndex P xs = Some i \<and> xs ! i = x"
  by (induction xs) (auto split: if_splits)

text \<open>
  C3. A reserve-inventory request for an existing product (the first table entry with the
  requested id) whose quantity exceeds that product's stock is answered with HTTP 409,
  and the products table the handler leaves behind is the one it found: no stock and no
  other field of any product has changed.
\<close>

theorem reserve_insufficient_stock_conflict:
  assumes "find (\<lambda>p. Product.ID p = productID) ps = Some product"
    and "Product.Stock product <s InventoryRequest.Quantity request"
  shows "fst (reserveInventoryHandler tid (Some productID) (Some request) ps)
         = (\<lparr>status = 409, body = Some (errorJSON ''Insufficient stock'')\<rparr>, ps)"
proof -
  from assms(1) obtain i where i: "findIndex (\<lambda>p. Product.ID p = productID) ps = Some i"
    and pi: "ps ! i = product"
    using find_findIndex by fastforce
  with assms(2) show ?thesis
    by (simp add: reserveInventoryHandler_def withSpan_def Let_def)
qed

text \<open>Six units of product 7 (stock 5) from the initial catalog.\<close>

theorem reserve_insufficient_stock_conflict_witness:
  "fst (reserveInventoryHandler ''t1'' (Some 7) (Some \<lparr>InventoryRequest.Quantity = 6, OrderID = 1\<rparr>)
          (products (\<lambda>r. r)))
   = (\<lparr>status = 409, body = Some (errorJSON ''Insufficient stock'')\<rparr>, products (\<lambda>r. r))"
  by (rule reserve_insufficient_stock_conflict [where product = "products (\<lambda>r. r) ! 6"])
     (simp_all add: products_def word_sless_alt)

lemma sint_add_wrap:
  fixes a b :: go_int
  shows "sint (a + b) = signed_take_bit 63 (sint a + sint b)"
  by (simp add: sint_word_ariths)

text \<open>
  C9, as stated, fails where the sum leaves the range of Go's \<^verbatim>\<open>int\<close>: releasing
  \<open>2\<^sup>6\<^sup>3 - 1\<close> units of product 1 (stock 15) is answered 200 and leaves the stock at
  \<open>-9223372036854775794\<close>, not at \<open>15 + (2\<^sup>6\<^sup>3 - 1)\<close>.
\<close>

theorem release_overflow_counterexample:
  "sint (Product.Stock (snd (fst (releaseInventoryHandler ''t1'' (Some 1)
            (Some \<lparr>InventoryRequest.Quantity = 9223372036854775807, OrderID = 1\<rparr>) (products (\<lambda>r. r)))) ! 0))
   \<noteq> sint (Product.Stock (products (\<lambda>r. r) ! 0)) + sint (9223372036854775807 :: go_int)"
  by (simp add: releaseInventoryHandler_def withSpan_def Let_def products_def)

text \<open>
  C9, amended. A release-inventory request with a well-formed body for an existing
  product (at index \<open>i\<close>, the first entry with the requested id) is answered with HTTP 200
  for every quantity a Go \<^verbatim>\<open>int\<close> can hold, zero and negative ones included, with no
  check against earlier reservations; only that product's stock changes, to the old
  stock plus the quantity in 64-bit wrap-around arithmetic, which is the exact sum
  whenever the exact sum fits in 64 bits.
\<close>

theorem release_adds_quantity_wrapping:
  assumes "findIndex (\<lambda>p. Product.ID p = productID) ps = Some i"
  shows "status (fst (fst (releaseInventoryHandler tid (Some productID) (Some request) ps))) = 200
       \<and> snd (fst (releaseInventoryHandler tid (Some productID) (Some request) ps))
           = ps[i := (ps ! i)\<lparr>Product.Stock := Product.Stock (ps ! i) + InventoryRequest.Quantity request\<rparr>]
       \<and> sint (Product.Stock (ps ! i) + InventoryRequest.Quantity request)
           = signed_take_bit 63 (sint (Product.Stock (ps ! i)) + sint (InventoryRequest.Quantity request))
       \<and> (- (2 ^ 63) \<le> sint (Product.Stock (ps ! i)) + sint (InventoryRequest.Quantity request)
            \<and> sint (Product.Stock (ps ! i)) + sint (InventoryRequest.Quantity request) < 2 ^ 63
          \<longrightarrow> sint (Product.Stock (ps ! i) + InventoryRequest.Quantity request)
              = sint (Product.Stock (ps ! i)) + sint (InventoryRequest.Quantity request))"
proof -
  have "sint (Product.Stock (ps ! i) + InventoryRequest.Quantity request)
        = sint (Product.Stock (ps ! i)) + sint (InventoryRequest.Quantity request)"
    if "- (2 ^ 63) \<le> sint (Product.Stock (ps ! i)) + sint (InventoryRequest.Quantity request)"
      and "sint (Product.Stock (ps ! i)) + sint (InventoryRequest.Quantity request) < 2 ^ 63"
    using that by (simp add: sint_add_wrap signed_take_bit_int_eq_self)
  with assms show ?thesis
    by (simp add: releaseInventoryHandler_def withSpan_def Let_def sint_add_wrap)
qed

text \<open>Releasing \<open>-3\<close> units of product 2 (stock 8, index 1): 200, and the stock is 5.\<close>

theorem release_adds_quantity_wrapping_witness:
  "status (fst (fst (releaseInventoryHandler ''t1'' (Some 2)
      (Some \<lparr>InventoryRequest.Quantity = - 3, OrderID = 1\<rparr>) (products (\<lambda>r. r))))) = 200
   \<and> map Product.Stock (snd (fst (releaseInventoryHandler ''t1'' (Some 2)
      (Some \<lparr>InventoryRequest.Quantity = - 3, OrderID = 1\<rparr>) (products (\<lambda>r. r)))))
     = [15, 5, 25, 12, 20, 30, 5, 18]"
proof -
  have h: "findIndex (\<lambda>p. Product.ID p = 2) (products (\<lambda>r. r)) = Some 1"
    by (simp add: products_def)
  from release_adds_quantity_wrapping [OF h, where tid = "''t1''"
      and request = "\<lparr>InventoryRequest.Quantity = - 3, OrderID = 1\<rparr>"]
  show ?thesis by (simp add: products_def)
qed

section \<open>Properties of user-service\<close>

text \<open>
  C4, as the code has it. A login request with a well-formed body whose email/password
  pair matches no stored user, with no simulated database failure drawn, is answered
  with HTTP 401, and exactly one log line carries \<^verbatim>\<open>error=invalid_credentials\<close>; that
  line is trace-correlated, but it is written at warning level: the request leaves no
  error-level line at all.
\<close>

theorem login_invalid_credentials_logged_as_warning:
  assumes "find (\<lambda>u. User.Email u = LoginRequest.Email r
                     \<and> User.Password u = LoginRequest.Password r) us = None"
    and "\<not> draw < 15"
  shows "status (fst (user_loggingMiddleware param
                       (loginHandler signedString now tid draw (Some r) us))) = 401
       \<and> (\<exists>l. filter (carriesError ''invalid_credentials'')
                 (logs (snd (user_loggingMiddleware param
                         (loginHandler signedString now tid draw (Some r) us)))) = [l]
              \<and> correlated tid l \<and> Level l = WarnLevel)
       \<and> filter (\<lambda>l. Level l = ErrorLevel)
            (logs (snd (user_loggingMiddleware param
                         (loginHandler signedString now tid draw (Some r) us)))) = []"
  using assms
  by (simp add: loginHandler_def user_loggingMiddleware_def withSpan_def logs_def
      carriesError_def correlated_def user_serviceName_def)

text \<open>The login of the observability guide: email \<^verbatim>\<open>invalid\<close>, password \<^verbatim>\<open>wrong\<close>.\<close>

theorem login_invalid_credentials_logged_as_warning_witness:
  "status (fst (user_loggingMiddleware
       \<lparr>Method = ''POST'', Path = ''/auth/login'', Latency = 1000, ClientIP = ''127.0.0.1'',
        UserAgent = ''curl'', RequestID = ''''\<rparr>
       (loginHandler (\<lambda>(c::rat json) k. Some ''tok'') 0 ''t1'' 50
          (Some \<lparr>LoginRequest.Email = ''invalid'', Password = ''wrong''\<rparr>) users))) = 401
   \<and> filter (\<lambda>l. Level l = ErrorLevel)
       (logs (snd (user_loggingMiddleware
       \<lparr>Method = ''POST'', Path = ''/auth/login'', Latency = 1000, ClientIP = ''127.0.0.1'',
        UserAgent = ''curl'', RequestID = ''''\<rparr>
       (loginHandler (\<lambda>(c::rat json) k. Some ''tok'') 0 ''t1'' 50
          (Some \<lparr>LoginRequest.Email = ''invalid'', Password = ''wrong''\<rparr>) users))))
     = ([] :: rat LogRecord list)"
proof -
  have h1: "find (\<lambda>u. User.Email u
                       = LoginRequest.Email \<lparr>LoginRequest.Email = ''invalid'', Password = ''wrong''\<rparr>
                     \<and> User.Password u
                       = LoginRequest.Password \<lparr>LoginRequest.Email = ''invalid'', Password = ''wrong''\<rparr>)
              users = None"
    by (simp add: users_def)
  have h2: "\<not> (50::nat) < 15" by simp
  note w = login_invalid_credentials_logged_as_warning [OF h1 h2,
      where param = "\<lparr>Method = ''POST'', Path = ''/auth/login'', Latency = 1000,
        ClientIP = ''127.0.0.1'', UserAgent = ''curl'', RequestID = []\<rparr>"
        and signedString = "\<lambda>(c::rat json) k. Some ''tok''" and now = 0 and tid = "''t1''"]
  from w show ?thesis by simp
qed

lemma find_password_blind:
  assumes "list_all2 (\<lambda>u u'. if User.ID u = userID then u' = u\<lparr>User.Password := User.Password u'\<rparr>
                              else u' = u) us us'"
  shows "map_option (\<lambda>u. u\<lparr>User.Password := ''''\<rparr>) (find (\<lambda>u. User.ID u = userID) us')
       = map_option (\<lambda>u. u\<lparr>User.Password := ''''\<rparr>) (find (\<lambda>u. User.ID u = userID) us)"
  using assms
proof (induction rule: list_all2_induct)
  case Nil
  then show ?case by simp
next
  case (Cons u us u' us')
  show ?case
  proof (cases "User.ID u = userID")
    case True
    with Cons.hyps(1) have eq: "u' = u\<lparr>User.Password := User.Password u'\<rparr>" by simp
    have "User.ID u' = userID"
      by (subst eq) (simp add: True)
    moreover have "u'\<lparr>User.Password := ''''\<rparr> = u\<lparr>User.Password := ''''\<rparr>"
      by (subst eq) simp
    ultimately show ?thesis using True by simp
  next
    case False
    with Cons.hyps(1) have "u' = u" by simp
    with False Cons.IH show ?thesis by simp
  qed
qed

text \<open>
  C10. Two user tables that agree entry by entry except for the password of entries with
  the requested id give the same get-user response (and the same log lines and span
  events); and no get-user response body has a \<^verbatim>\<open>password\<close> key.
\<close>

theorem getUser_response_independent_of_password:
  assumes "list_all2 (\<lambda>u u'. if User.ID u = userID then u' = u\<lparr>User.Password := User.Password u'\<rparr>
                              else u' = u) us us'"
  shows "(getUserHandler tid (Some userID) us' :: 'p response \<times> 'p event list)
           = getUserHandler tid (Some userID) us
       \<and> (\<forall>kvs. body (fst (getUserHandler tid (Some userID) us :: 'p response \<times> 'p event list))
                  = Some (JObj kvs)
              \<longrightarrow> ''password'' \<notin> fst ` set kvs)"
proof -
  have "(getUserHandler tid (Some userID) us' :: 'p response \<times> 'p event list)
           = getUserHandler tid (Some userID) us"
    using find_password_blind [OF assms]
    by (auto simp: getUserHandler_def split: option.splits)
  moreover have "\<forall>kvs. body (fst (getUserHandler tid (Some userID) us
                                    :: 'p response \<times> 'p event list)) = Some (JObj kvs)
              \<longrightarrow> ''password'' \<notin> fst ` set kvs"
    by (auto simp: getUserHandler_def withSpan_def marshalUser_def errorJSON_def
        split: option.splits)
  ultimately show ?thesis by simp
qed

text \<open>User 2 of the initial table, with the password changed.\<close>

theorem getUser_response_independent_of_password_witness:
  "(getUserHandler ''t1'' (Some 2)
      [\<lparr>User.ID = 1, Email = ''john@example.com'', Name = ''John Doe'', Password = ''password123''\<rparr>,
       \<lparr>User.ID = 2, Email = ''jane@example.com'', Name = ''Jane Smith'', Password = ''hunter2''\<rparr>,
       \<lparr>User.ID = 3, Email = ''alice@example.com'', Name = ''Alice Johnson'', Password = ''password123''\<rparr>]
     :: rat response \<times> rat event list)
   = getUserHandler ''t1'' (Some 2) users
   \<and> body (fst (getUserHandler ''t1'' (Some 2) users :: rat response \<times> rat event list))
     = Some (JObj [(''id'', JInt 2), (''email'', JStr ''jane@example.com''),
                   (''name'', JStr ''Jane Smith'')])"
proof -
  have h: "list_all2 (\<lambda>u u'. if User.ID u = 2 then u' = u\<lparr>User.Password := User.Password u'\<rparr>
                              else u' = u) users
      [\<lparr>User.ID = 1, Email = ''john@example.com'', Name = ''John Doe'', Password = ''password123''\<rparr>,
       \<lparr>User.ID = 2, Email = ''jane@example.com'', Name = ''Jane Smith'', Password = ''hunter2''\<rparr>,
       \<lparr>User.ID = 3, Email = ''alice@example.com'', Name = ''Alice Johnson'', Password = ''password123''\<rparr>]"
    by (simp add: users_def)
  have b: "body (fst (getUserHandler ''t1'' (Some 2) users :: rat response \<times> rat event list))
     = Some (JObj [(''id'', JInt 2), (''email'', JStr ''jane@example.com''),
                   (''name'', JStr ''Jane Smith'')])"
    by (simp add: getUserHandler_def withSpan_def marshalUser_def users_def)
  from getUser_response_independent_of_password [OF h, where tid = "''t1''" and ?'p = rat] b
  show ?thesis by simp
qed

section \<open>Properties of order-service, for any network\<close>

lemma calls_append [simp]: "calls (xs @ ys) = calls xs @ calls ys"
  by (simp add: calls_def)

lemma calls_Cons_simps [simp]:
  "calls [] = []"
  "calls (SpanStart n # es) = calls es"
  "calls (SpanEnd n # es) = calls es"
  "calls (Log l # es) = calls es"
  "calls (Call rq rs # es) = (rq, rs) # calls es"
  "calls (Go g # es) = calls es"
  "calls (Mutate t # es) = calls es"
  "calls (Lock m # es) = calls es"
  "calls (Unlock m # es) = calls es"
  by (simp_all add: calls_def)

lemma calls_withSpan [simp]: "calls (snd (withSpan n run)) = calls (snd run)"
  by (simp add: withSpan_def)

lemma calls_getProductDetails:
  "calls (snd (getProductDetails e pid w)) = [(GET_products pid, fst (Do e (GET_products pid) w))]"
  by (simp add: getProductDetails_def split: prod.splits)

lemma calls_reserveInventory:
  "calls (snd (reserveInventory e pid q oid w))
   = [(POST_inventory_reserve pid q oid, fst (Do e (POST_inventory_reserve pid q oid) w))]"
  by (simp add: reserveInventory_def split: prod.splits)

lemma reserveInventory_result:
  "fst (fst (reserveInventory e pid q oid w)) = Some True
   \<longleftrightarrow> \<not> reserveFailed (POST_inventory_reserve pid q oid,
                          fst (Do e (POST_inventory_reserve pid q oid) w))"
  by (simp add: reserveInventory_def reserveFailed_def withSpan_def split: prod.splits option.splits)

lemma reserveFailed_other [simp]:
  "\<not> reserveFailed (GET_products n, x)" "\<not> reserveFailed (GET_users n, x)"
  by (simp_all add: reserveFailed_def)

text \<open>One pass through the loop body: one lookup, then at most one reservation.\<close>

lemma orderItemStep_calls:
  assumes "orderItemStep e c item w = ((r, w'), ev)"
  shows "lookups ev = 1 \<and> reservations ev \<le> 1
       \<and> \<not> list_ex (\<lambda>c. isRelease (fst c)) (calls ev)
       \<and> (case r of
            Inr oi \<Rightarrow> reservations ev = 1 \<and> \<not> list_ex reserveFailed (calls ev)
          | Inl resp \<Rightarrow>
              (status resp = 400 \<and> reservations ev = 0 \<and> \<not> list_ex reserveFailed (calls ev))
              \<or> (status resp = 409 \<and> reservations ev = 1 \<and> list_ex reserveFailed (calls ev)))"
proof (cases "fst (fst (getProductDetails e (CreateOrderItem.ProductID item) w))")
  case None
  obtain w1 ev1 where g: "getProductDetails e (CreateOrderItem.ProductID item) w = ((None, w1), ev1)"
    using None by (metis fst_conv surj_pair)
  have c1: "calls ev1 = [(GET_products (CreateOrderItem.ProductID item),
                          fst (Do e (GET_products (CreateOrderItem.ProductID item)) w))]"
    using calls_getProductDetails [of e "CreateOrderItem.ProductID item" w] g by simp
  from assms g c1 show ?thesis
    by (auto simp: orderItemStep_def lookups_def reservations_def reserveFailed_def)
next
  case (Some product)
  obtain w1 ev1 where g: "getProductDetails e (CreateOrderItem.ProductID item) w = ((Some product, w1), ev1)"
    using Some by (metis fst_conv surj_pair)
  have c1: "calls ev1 = [(GET_products (CreateOrderItem.ProductID item),
                          fst (Do e (GET_products (CreateOrderItem.ProductID item)) w))]"
    using calls_getProductDetails [of e "CreateOrderItem.ProductID item" w] g by simp
  obtain reserved w2 ev2 where rv: "reserveInventory e (CreateOrderItem.ProductID item)
        (CreateOrderItem.Quantity item) c w1 = ((reserved, w2), ev2)"
    by (metis surj_pair)
  have c2: "calls ev2 = [(POST_inventory_reserve (CreateOrderItem.ProductID item)
                            (CreateOrderItem.Quantity item) c,
                          fst (Do e (POST_inventory_reserve (CreateOrderItem.ProductID item)
                            (CreateOrderItem.Quantity item) c) w1))]"
    using calls_reserveInventory [of e "CreateOrderItem.ProductID item"
        "CreateOrderItem.Quantity item" c w1] rv by simp
  have r2: "reserved = Some True \<longleftrightarrow> \<not> reserveFailed
              (POST_inventory_reserve (CreateOrderItem.ProductID item)
                            (CreateOrderItem.Quantity item) c,
                          fst (Do e (POST_inventory_reserve (CreateOrderItem.ProductID item)
                            (CreateOrderItem.Quantity item) c) w1))"
    using reserveInventory_result [of e "CreateOrderItem.ProductID item"
        "CreateOrderItem.Quantity item" c w1] rv by simp
  show ?thesis
  proof (cases "reserved = Some True")
    case True
    with assms g rv c1 c2 r2 show ?thesis
      by (auto simp: orderItemStep_def lookups_def reservations_def)
  next
    case False
    with assms g rv c1 c2 r2 show ?thesis
      by (auto simp: orderItemStep_def lookups_def reservations_def)
  qed
qed

lemma lookups_append [simp]: "lookups (xs @ ys) = lookups xs + lookups ys"
  by (simp add: lookups_def)

lemma reservations_append [simp]: "reservations (xs @ ys) = reservations xs + reservations ys"
  by (simp add: reservations_def)

lemma orderItemsLoop_calls:
  assumes "orderItemsLoop e c items acc tot w = ((r, w'), ev)"
  shows "lookups ev \<le> length items \<and> reservations ev \<le> lookups ev
       \<and> \<not> list_ex (\<lambda>c. isRelease (fst c)) (calls ev)
       \<and> (case r of
            Inr res \<Rightarrow> lookups ev = length items \<and> reservations ev = length items
                        \<and> \<not> list_ex reserveFailed (calls ev)
          | Inl resp \<Rightarrow>
              (status resp = 400 \<and> reservations ev + 1 = lookups ev
                 \<and> \<not> list_ex reserveFailed (calls ev))
              \<or> (status resp = 409 \<and> reservations ev = lookups ev
                 \<and> list_ex reserveFailed (calls ev)))"
  using assms
proof (induction items arbitrary: acc tot w r w' ev)
  case Nil
  then show ?case by (auto simp: lookups_def reservations_def)
next
  case (Cons item items)
  obtain r1 w1 ev1 where s: "orderItemStep e c item w = ((r1, w1), ev1)"
    by (metis surj_pair)
  note st = orderItemStep_calls [OF s]
  show ?case
  proof (cases r1)
    case (Inl resp)
    with Cons.prems s have "r = Inl resp" "ev = ev1" by auto
    with st Inl show ?thesis by auto
  next
    case (Inr oi)
    obtain r2 w2 ev2 where l: "orderItemsLoop e c items (acc @ [oi])
        (tot + OrderItem.Price oi * float64 e (CreateOrderItem.Quantity item)) w1 = ((r2, w2), ev2)"
      by (metis surj_pair)
    with Cons.prems s Inr have eq: "r = r2" "ev = ev1 @ ev2" by auto
    note ih = Cons.IH [OF l]
    from st Inr have a: "lookups ev1 = 1" "reservations ev1 = 1"
      "\<not> list_ex (\<lambda>c. isRelease (fst c)) (calls ev1)" "\<not> list_ex reserveFailed (calls ev1)"
      by auto
    show ?thesis
    proof (cases r2)
      case (Inl resp)
      with ih a eq show ?thesis by (auto simp: list_ex_iff)
    next
      case (Inr res)
      with ih a eq show ?thesis by (auto simp: list_ex_iff)
    qed
  qed
qed

section \<open>Properties of order-service over the mesh\<close>

lemma unstock_fields:
  "unstock p = unstock p' \<Longrightarrow> Product.ID p = Product.ID p' \<and> Product.Name p = Product.Name p'
     \<and> Product.Price p = Product.Price p'"
  by (cases p, cases p') (simp add: unstock_def)

lemma find_same_catalog:
  assumes "map unstock ps0 = map unstock ps"
    and "find (\<lambda>p. Product.ID p = pid) ps0 = Some p0"
  shows "\<exists>p. find (\<lambda>p. Product.ID p = pid) ps = Some p \<and> unstock p = unstock p0"
  using assms
proof (induction ps0 arbitrary: ps)
  case Nil
  then show ?case by simp
next
  case (Cons a ps0)
  then obtain b ps' where ps: "ps = b # ps'" and ab: "unstock a = unstock b"
    and rest: "map unstock ps0 = map unstock ps'"
    by (cases ps) auto
  from ab have ids: "Product.ID a = Product.ID b" using unstock_fields by blast
  show ?case
  proof (cases "Product.ID a = pid")
    case True
    with Cons.prems(2) have "p0 = a" by simp
    with True ids ps ab show ?thesis by simp
  next
    case False
    with Cons.prems(2) have "find (\<lambda>p. Product.ID p = pid) ps0 = Some p0" by simp
    from Cons.IH [OF rest this] False ids ps show ?thesis by simp
  qed
qed

lemma map_unstock_update:
  "i < length ps \<Longrightarrow> map unstock (ps[i := (ps ! i)\<lparr>Product.Stock := s\<rparr>]) = map unstock ps"
  by (simp add: map_update unstock_def list_update_same_conv)

text \<open>The three helper calls over the mesh.\<close>

lemma mesh_validateUser:
  assumes "Do e = meshDo tid"
  shows "fst (validateUser e uid w) = (Some (find (\<lambda>u. User.ID u = uid) (meshUsers w) \<noteq> None), w)"
  using assms
  by (auto simp: validateUser_def meshDo_def withSpan_def getUserHandler_def split: option.splits)

lemma mesh_getProductDetails:
  assumes "Do e = meshDo tid"
    and "\<And>p. Decode e (marshalProduct p)
            = Some \<lparr>ProductResponse.ID = Product.ID p, Name = Product.Name p,
                    Price = Product.Price p, Stock = Product.Stock p\<rparr>"
  shows "fst (getProductDetails e pid w)
         = (map_option (\<lambda>p. \<lparr>ProductResponse.ID = Product.ID p, Name = Product.Name p,
                              Price = Product.Price p, Stock = Product.Stock p\<rparr>)
              (find (\<lambda>p. Product.ID p = pid) (meshProducts w)), w)"
  using assms
  by (auto simp: getProductDetails_def meshDo_def withSpan_def getProductHandler_def
      split: option.splits)

lemma mesh_reserveInventory_ok:
  assumes "Do e = meshDo tid"
    and "findIndex (\<lambda>p. Product.ID p = pid) (meshProducts w) = Some i"
    and "\<not> Product.Stock (meshProducts w ! i) <s q"
  shows "fst (reserveInventory e pid q oid w)
         = (Some True, w\<lparr>meshProducts := (meshProducts w)
               [i := (meshProducts w ! i)\<lparr>Product.Stock := Product.Stock (meshProducts w ! i) - q\<rparr>]\<rparr>)"
  using assms
  by (simp add: reserveInventory_def meshDo_def withSpan_def reserveInventoryHandler_def Let_def)

lemma mesh_reserveInventory_insufficient:
  assumes "Do e = meshDo tid"
    and "findIndex (\<lambda>p. Product.ID p = pid) (meshProducts w) = Some i"
    and "Product.Stock (meshProducts w ! i) <s q"
  shows "fst (reserveInventory e pid q oid w) = (Some False, w)"
  using assms
  by (simp add: reserveInventory_def meshDo_def withSpan_def reserveInventoryHandler_def Let_def)


lemma mesh_orderItemStep_ok:
  assumes "Do e = meshDo tid"
    and "\<And>p. Decode e (marshalProduct p)
            = Some \<lparr>ProductResponse.ID = Product.ID p, Name = Product.Name p,
                    Price = Product.Price p, Stock = Product.Stock p\<rparr>"
    and "findIndex (\<lambda>p. Product.ID p = CreateOrderItem.ProductID item) (meshProducts w) = Some i"
    and "\<not> Product.Stock (meshProducts w ! i) <s CreateOrderItem.Quantity item"
  shows "fst (orderItemStep e c item w)
         = (Inr \<lparr>OrderItem.ProductID = CreateOrderItem.ProductID item,
                 Quantity = CreateOrderItem.Quantity item,
                 Price = Product.Price (meshProducts w ! i),
                 Name = Product.Name (meshProducts w ! i)\<rparr>,
            w\<lparr>meshProducts := (meshProducts w)
               [i := (meshProducts w ! i)\<lparr>Product.Stock :=
                   Product.Stock (meshProducts w ! i) - CreateOrderItem.Quantity item\<rparr>]\<rparr>)"
proof -
  from findIndex_Some [OF assms(3)]
  have f: "find (\<lambda>p. Product.ID p = CreateOrderItem.ProductID item) (meshProducts w)
           = Some (meshProducts w ! i)" by simp
  obtain ev1 where g: "getProductDetails e (CreateOrderItem.ProductID item) w
      = ((Some \<lparr>ProductResponse.ID = Product.ID (meshProducts w ! i),
                Name = Product.Name (meshProducts w ! i),
                Price = Product.Price (meshProducts w ! i),
                Stock = Product.Stock (meshProducts w ! i)\<rparr>, w), ev1)"
    using mesh_getProductDetails [OF assms(1,2), of "CreateOrderItem.ProductID item" w] f
    by (metis (no_types, lifting) option.simps(9) prod.collapse)
  obtain ev2 where r: "reserveInventory e (CreateOrderItem.ProductID item)
      (CreateOrderItem.Quantity item) c w
      = ((Some True, w\<lparr>meshProducts := (meshProducts w)
               [i := (meshProducts w ! i)\<lparr>Product.Stock :=
                   Product.Stock (meshProducts w ! i) - CreateOrderItem.Quantity item\<rparr>]\<rparr>), ev2)"
    using mesh_reserveInventory_ok [OF assms(1,3,4), of c] by (metis prod.collapse)
  show ?thesis by (simp add: orderItemStep_def g r)
qed

lemma mesh_orderItemStep_insufficient:
  assumes "Do e = meshDo tid"
    and "\<And>p. Decode e (marshalProduct p)
            = Some \<lparr>ProductResponse.ID = Product.ID p, Name = Product.Name p,
                    Price = Product.Price p, Stock = Product.Stock p\<rparr>"
    and "findIndex (\<lambda>p. Product.ID p = CreateOrderItem.ProductID item) (meshProducts w) = Some i"
    and "Product.Stock (meshProducts w ! i) <s CreateOrderItem.Quantity item"
  shows "fst (orderItemStep e c item w)
         = (Inl \<lparr>status = 409, body = Some (errorJSON
                  (''Insufficient stock for product ''
                     @ itoa (CreateOrderItem.ProductID item)))\<rparr>, w)"
proof -
  from findIndex_Some [OF assms(3)]
  have f: "find (\<lambda>p. Product.ID p = CreateOrderItem.ProductID item) (meshProducts w)
           = Some (meshProducts w ! i)" by simp
  obtain ev1 where g: "getProductDetails e (CreateOrderItem.ProductID item) w
      = ((Some \<lparr>ProductResponse.ID = Product.ID (meshProducts w ! i),
                Name = Product.Name (meshProducts w ! i),
                Price = Product.Price (meshProducts w ! i),
                Stock = Product.Stock (meshProducts w ! i)\<rparr>, w), ev1)"
    using mesh_getProductDetails [OF assms(1,2), of "CreateOrderItem.ProductID item" w] f
    by (metis (no_types, lifting) option.simps(9) prod.collapse)
  obtain ev2 where r: "reserveInventory e (CreateOrderItem.ProductID item)
      (CreateOrderItem.Quantity item) c w = ((Some False, w), ev2)"
    using mesh_reserveInventory_insufficient [OF assms(1,3,4), of c] by (metis prod.collapse)
  show ?thesis by (simp add: orderItemStep_def g r)
qed

lemma mesh_loop_prefix:
  assumes "Do e = meshDo tid"
    and "\<And>p. Decode e (marshalProduct p)
            = Some \<lparr>ProductResponse.ID = Product.ID p, Name = Product.Name p,
                    Price = Product.Price p, Stock = Product.Stock p\<rparr>"
    and "reserveAll (meshProducts w) pre = Some ps1"
    and "map unstock ps0 = map unstock (meshProducts w)"
    and "catalogEntries ps0 pre = Some entries"
  shows "\<exists>ev1. \<forall>rest. orderItemsLoop e c (pre @ rest) acc tot w
           = (fst (orderItemsLoop e c rest (acc @ orderItemsOf entries pre)
                    (foldl (\<lambda>t (p, item). t + Product.Price p
                               * float64 e (CreateOrderItem.Quantity item)) tot (zip entries pre))
                    (w\<lparr>meshProducts := ps1\<rparr>)),
              ev1 @ snd (orderItemsLoop e c rest (acc @ orderItemsOf entries pre)
                    (foldl (\<lambda>t (p, item). t + Product.Price p
                               * float64 e (CreateOrderItem.Quantity item)) tot (zip entries pre))
                    (w\<lparr>meshProducts := ps1\<rparr>)))"
  using assms(3,4,5)
proof (induction pre arbitrary: w acc tot entries)
  case Nil
  then show ?case by (auto simp: orderItemsOf_def intro: exI [of _ "[]"])
next
  case (Cons item pre)
  let ?ps = "meshProducts w"
  from Cons.prems(1) obtain i where i: "findIndex (\<lambda>p. Product.ID p = CreateOrderItem.ProductID item) ?ps = Some i"
    and enough: "\<not> Product.Stock (?ps ! i) <s CreateOrderItem.Quantity item"
    and rest: "reserveAll (?ps[i := (?ps ! i)\<lparr>Product.Stock :=
                   Product.Stock (?ps ! i) - CreateOrderItem.Quantity item\<rparr>]) pre = Some ps1"
    by (auto split: option.splits if_splits)
  let ?w1 = "w\<lparr>meshProducts := ?ps[i := (?ps ! i)\<lparr>Product.Stock :=
                   Product.Stock (?ps ! i) - CreateOrderItem.Quantity item\<rparr>]\<rparr>"
  from Cons.prems(3) obtain p0 entries' where p0: "find (\<lambda>p. Product.ID p = CreateOrderItem.ProductID item) ps0 = Some p0"
    and e': "catalogEntries ps0 pre = Some entries'" and en: "entries = p0 # entries'"
    by (auto split: option.splits)
  from findIndex_Some [OF i] have ilen: "i < length ?ps"
    and fi: "find (\<lambda>p. Product.ID p = CreateOrderItem.ProductID item) ?ps = Some (?ps ! i)"
    by simp_all
  from find_same_catalog [OF Cons.prems(2) p0] fi have "unstock (?ps ! i) = unstock p0" by simp
  then have same: "Product.Name (?ps ! i) = Product.Name p0" "Product.Price (?ps ! i) = Product.Price p0"
    using unstock_fields by blast+
  let ?oi = "\<lparr>OrderItem.ProductID = CreateOrderItem.ProductID item,
                 Quantity = CreateOrderItem.Quantity item,
                 Price = Product.Price p0, Name = Product.Name p0\<rparr>"
  obtain ev0 where step: "orderItemStep e c item w = ((Inr ?oi, ?w1), ev0)"
    using mesh_orderItemStep_ok [OF assms(1,2) i enough, of c] same by (metis prod.collapse)
  have cat: "map unstock ps0 = map unstock (meshProducts ?w1)"
    using Cons.prems(2) map_unstock_update [OF ilen] by simp
  have rest': "reserveAll (meshProducts ?w1) pre = Some ps1" using rest by simp
  from Cons.IH [OF rest' cat e', of "acc @ [?oi]"
      "tot + Product.Price p0 * float64 e (CreateOrderItem.Quantity item)"]
  obtain ev1 where ih: "\<And>rest. orderItemsLoop e c (pre @ rest) (acc @ [?oi])
        (tot + Product.Price p0 * float64 e (CreateOrderItem.Quantity item)) ?w1
       = (fst (orderItemsLoop e c rest ((acc @ [?oi]) @ orderItemsOf entries' pre)
                    (foldl (\<lambda>t (p, item). t + Product.Price p
                               * float64 e (CreateOrderItem.Quantity item))
                       (tot + Product.Price p0 * float64 e (CreateOrderItem.Quantity item))
                       (zip entries' pre))
                    (?w1\<lparr>meshProducts := ps1\<rparr>)),
              ev1 @ snd (orderItemsLoop e c rest ((acc @ [?oi]) @ orderItemsOf entries' pre)
                    (foldl (\<lambda>t (p, item). t + Product.Price p
                               * float64 e (CreateOrderItem.Quantity item))
                       (tot + Product.Price p0 * float64 e (CreateOrderItem.Quantity item))
                       (zip entries' pre))
                    (?w1\<lparr>meshProducts := ps1\<rparr>)))"
    by blast
  have "orderItemsLoop e c ((item # pre) @ rest) acc tot w
           = (fst (orderItemsLoop e c rest (acc @ orderItemsOf entries (item # pre))
                    (foldl (\<lambda>t (p, item). t + Product.Price p
                               * float64 e (CreateOrderItem.Quantity item)) tot
                       (zip entries (item # pre)))
                    (w\<lparr>meshProducts := ps1\<rparr>)),
              (ev0 @ ev1) @ snd (orderItemsLoop e c rest (acc @ orderItemsOf entries (item # pre))
                    (foldl (\<lambda>t (p, item). t + Product.Price p
                               * float64 e (CreateOrderItem.Quantity item)) tot
                       (zip entries (item # pre)))
                    (w\<lparr>meshProducts := ps1\<rparr>)))" for rest
    using step ih [of rest] by (simp add: en orderItemsOf_def split: prod.splits)
  then show ?case by blast
qed

lemma createOrder_no_release:
  "\<not> list_ex (\<lambda>c. isRelease (fst c)) (calls (snd (createOrderHandler e req st w)))"
proof (cases req)
  case None
  then show ?thesis by (simp add: createOrderHandler_def withSpan_def)
next
  case (Some r)
  obtain v w1 ev1 where v: "validateUser e (CreateOrderRequest.UserID r) w = ((v, w1), ev1)"
    by (metis surj_pair)
  have cv: "calls ev1 = [(GET_users (CreateOrderRequest.UserID r),
                          fst (Do e (GET_users (CreateOrderRequest.UserID r)) w))]"
    using v by (auto simp: validateUser_def withSpan_def split: prod.splits)
  obtain r2 w2 ev2 where l: "orderItemsLoop e (orderCounter st) (CreateOrderRequest.Items r) [] 0 w1
      = ((r2, w2), ev2)"
    by (metis surj_pair)
  from orderItemsLoop_calls [OF l]
  have nr: "\<not> list_ex (\<lambda>c. isRelease (fst c)) (calls ev2)" by simp
  from Some v l cv nr show ?thesis
    by (cases r2) (auto simp: createOrderHandler_def withSpan_def Let_def split: prod.splits)
qed

lemma reserveAll_catalogEntries:
  assumes "reserveAll ps pre = Some ps1" and "map unstock ps0 = map unstock ps"
  shows "\<exists>entries. catalogEntries ps0 pre = Some entries"
  using assms
proof (induction pre arbitrary: ps)
  case Nil
  then show ?case by simp
next
  case (Cons item pre)
  from Cons.prems(1) obtain i where i: "findIndex (\<lambda>p. Product.ID p = CreateOrderItem.ProductID item) ps = Some i"
    and rest: "reserveAll (ps[i := (ps ! i)\<lparr>Product.Stock :=
                   Product.Stock (ps ! i) - CreateOrderItem.Quantity item\<rparr>]) pre = Some ps1"
    by (auto split: option.splits if_splits)
  from findIndex_Some [OF i] have ilen: "i < length ps"
    and fi: "find (\<lambda>p. Product.ID p = CreateOrderItem.ProductID item) ps = Some (ps ! i)"
    by simp_all
  from find_same_catalog [OF Cons.prems(2) [symmetric] fi]
  obtain p0 where p0: "find (\<lambda>p. Product.ID p = CreateOrderItem.ProductID item) ps0 = Some p0"
    by blast
  have "map unstock ps0 = map unstock (ps[i := (ps ! i)\<lparr>Product.Stock :=
                   Product.Stock (ps ! i) - CreateOrderItem.Quantity item\<rparr>])"
    using Cons.prems(2) map_unstock_update [OF ilen] by simp
  from Cons.IH [OF rest this] p0 show ?case by auto
qed

section \<open>The claims about order creation\<close>

lemma decode_marshalProduct:
  "decodeProductResponse wr (marshalProduct p)
   = Some \<lparr>ProductResponse.ID = Product.ID p, Name = Product.Name p,
           Price = Product.Price p, Stock = Product.Stock p\<rparr>"
  by (simp add: decodeProductResponse_def marshalProduct_def foldKey_def decodeInt_def
      decodeFloat_def decodeString_def)

lemmas run_defs = createOrderHandler_def validateUser_def getProductDetails_def
  reserveInventory_def orderItemStep_def withSpan_def meshEnv_def meshDo_def
  getUserHandler_def getProductHandler_def reserveInventoryHandler_def
  decodeProductResponse_def marshalProduct_def marshalUser_def errorJSON_def
  foldKey_def decodeInt_def decodeFloat_def decodeString_def f64wire_def cJSON_def
  marshalOrder_def products_def users_def initialStore_def Let_def word_sless_alt

text \<open>
  C1, as stated, fails: the loop returns at the first lookup or reservation that fails,
  so a request with two items whose first reservation is refused makes one catalog
  lookup, not two.
\<close>

theorem createOrder_early_exit_counterexample:
  "lookups (snd (createOrderHandler (meshEnv ''t1'' f64wire 201 10 11)
      (Some \<lparr>CreateOrderRequest.UserID = 1,
             Items = [\<lparr>CreateOrderItem.ProductID = 7, Quantity = 6\<rparr>,
                      \<lparr>CreateOrderItem.ProductID = 1, Quantity = 1\<rparr>]\<rparr>)
      initialStore \<lparr>meshUsers = users, meshProducts = products Finite\<rparr>))
   \<noteq> length (CreateOrderRequest.Items
        \<lparr>CreateOrderRequest.UserID = 1,
             Items = [\<lparr>CreateOrderItem.ProductID = 7, Quantity = 6\<rparr>,
                      \<lparr>CreateOrderItem.ProductID = 1, Quantity = 1\<rparr>]\<rparr>)"
  by (simp add: run_defs lookups_def)

text \<open>
  C1, amended. For a create-order request with \<open>N\<close> items that has passed user
  validation, over any network: the handler makes at most \<open>N\<close> catalog lookups and never
  more reservations than lookups; it makes exactly \<open>N\<close> lookups and \<open>N\<close> reservations
  when it answers 201; and if a reservation fails (a transport error or a status other
  than 200), that reservation was the last call made, with as many reservations as
  lookups, the answer is 409 and the orders table and counter are unchanged.
\<close>

theorem createOrder_lookups_and_reservations:
  assumes "fst (fst (validateUser e (CreateOrderRequest.UserID r) w)) = Some True"
  shows "lookups (snd (createOrderHandler e (Some r) st w)) \<le> length (CreateOrderRequest.Items r)
       \<and> reservations (snd (createOrderHandler e (Some r) st w))
           \<le> lookups (snd (createOrderHandler e (Some r) st w))
       \<and> (status (fst (fst (createOrderHandler e (Some r) st w))) = 201
            \<longrightarrow> lookups (snd (createOrderHandler e (Some r) st w)) = length (CreateOrderRequest.Items r)
              \<and> reservations (snd (createOrderHandler e (Some r) st w))
                  = length (CreateOrderRequest.Items r))
       \<and> (list_ex reserveFailed (calls (snd (createOrderHandler e (Some r) st w)))
            \<longrightarrow> status (fst (fst (createOrderHandler e (Some r) st w))) = 409
              \<and> fst (snd (fst (createOrderHandler e (Some r) st w))) = st
              \<and> reservations (snd (createOrderHandler e (Some r) st w))
                  = lookups (snd (createOrderHandler e (Some r) st w)))"
proof -
  obtain w1 ev1 where v: "validateUser e (CreateOrderRequest.UserID r) w = ((Some True, w1), ev1)"
    using assms by (metis fst_conv surj_pair)
  have cv: "calls ev1 = [(GET_users (CreateOrderRequest.UserID r),
                          fst (Do e (GET_users (CreateOrderRequest.UserID r)) w))]"
    using v by (auto simp: validateUser_def withSpan_def split: prod.splits)
  obtain r2 w2 ev2 where l: "orderItemsLoop e (orderCounter st) (CreateOrderRequest.Items r) [] 0 w1
      = ((r2, w2), ev2)"
    by (metis surj_pair)
  note lc = orderItemsLoop_calls [OF l]
  show ?thesis
  proof (cases r2)
    case (Inl resp)
    with v l have run: "createOrderHandler e (Some r) st w
        = ((resp, st, w2), SpanStart ''create_order'' # (ev1 @ ev2) @ [SpanEnd ''create_order''])"
      by (simp add: createOrderHandler_def withSpan_def)
    from lc Inl cv show ?thesis
      unfolding run by (auto simp: lookups_def reservations_def reserveFailed_def)
  next
    case (Inr res)
    obtain orderItems tot where res: "res = (orderItems, tot)" by (cases res)
    with Inr v l have run:
      "calls (snd (createOrderHandler e (Some r) st w)) = calls ev1 @ calls ev2"
      by (simp add: createOrderHandler_def withSpan_def Let_def)
    from lc Inr cv run show ?thesis
      by (auto simp: lookups_def reservations_def reserveFailed_def)
  qed
qed

text \<open>Six units of product 7 (stock 5), then one of product 1, over the mesh.\<close>

theorem createOrder_lookups_and_reservations_witness:
  "lookups (snd (createOrderHandler (meshEnv ''t1'' f64wire 201 10 11)
      (Some \<lparr>CreateOrderRequest.UserID = 1,
             Items = [\<lparr>CreateOrderItem.ProductID = 7, Quantity = 6\<rparr>,
                      \<lparr>CreateOrderItem.ProductID = 1, Quantity = 1\<rparr>]\<rparr>)
      initialStore \<lparr>meshUsers = users, meshProducts = products Finite\<rparr>)) = 1
   \<and> reservations (snd (createOrderHandler (meshEnv ''t1'' f64wire 201 10 11)
      (Some \<lparr>CreateOrderRequest.UserID = 1,
             Items = [\<lparr>CreateOrderItem.ProductID = 7, Quantity = 6\<rparr>,
                      \<lparr>CreateOrderItem.ProductID = 1, Quantity = 1\<rparr>]\<rparr>)
      initialStore \<lparr>meshUsers = users, meshProducts = products Finite\<rparr>)) = 1
   \<and> status (fst (fst (createOrderHandler (meshEnv ''t1'' f64wire 201 10 11)
      (Some \<lparr>CreateOrderRequest.UserID = 1,
             Items = [\<lparr>CreateOrderItem.ProductID = 7, Quantity = 6\<rparr>,
                      \<lparr>CreateOrderItem.ProductID = 1, Quantity = 1\<rparr>]\<rparr>)
      initialStore \<lparr>meshUsers = users, meshProducts = products Finite\<rparr>))) = 409
   \<and> fst (snd (fst (createOrderHandler (meshEnv ''t1'' f64wire 201 10 11)
      (Some \<lparr>CreateOrderRequest.UserID = 1,
             Items = [\<lparr>CreateOrderItem.ProductID = 7, Quantity = 6\<rparr>,
                      \<lparr>CreateOrderItem.ProductID = 1, Quantity = 1\<rparr>]\<rparr>)
      initialStore \<lparr>meshUsers = users, meshProducts = products Finite\<rparr>))) = initialStore"
proof -
  let ?e = "meshEnv ''t1'' f64wire 201 10 11"
  let ?r = "\<lparr>CreateOrderRequest.UserID = 1,
             Items = [\<lparr>CreateOrderItem.ProductID = 7, Quantity = 6\<rparr>,
                      \<lparr>CreateOrderItem.ProductID = 1, Quantity = 1\<rparr>]\<rparr>"
  let ?w = "\<lparr>meshUsers = users, meshProducts = products Finite\<rparr>"
  have h: "fst (fst (validateUser ?e (CreateOrderRequest.UserID ?r) ?w)) = Some True"
    by (simp add: run_defs)
  have f: "list_ex reserveFailed (calls (snd (createOrderHandler ?e (Some ?r) initialStore ?w)))"
    by (simp add: run_defs reserveFailed_def)
  have lk: "lookups (snd (createOrderHandler ?e (Some ?r) initialStore ?w)) = 1"
    by (simp add: run_defs lookups_def)
  from createOrder_lookups_and_reservations [OF h, of initialStore] f lk show ?thesis
    by simp
qed








text \<open>
  C5. Over the mesh: when the items before item \<open>i\<close> have all been reserved, leaving the
  products table \<open>ps1\<close>, and item \<open>i\<close> finds less stock than it asks for, the creation
  fails with 409, the orders table and counter are unchanged, no release-inventory call
  is among the calls of the run, and the products table stays \<open>ps1\<close>: the stock taken
  for the earlier items is not given back.
\<close>

theorem createOrder_failed_reservation_not_compensated:
  assumes "Do e = meshDo tid"
    and "\<forall>p. Decode e (marshalProduct p)
            = Some \<lparr>ProductResponse.ID = Product.ID p, Name = Product.Name p,
                    Price = Product.Price p, Stock = Product.Stock p\<rparr>"
    and "find (\<lambda>u. User.ID u = CreateOrderRequest.UserID r) (meshUsers w) \<noteq> None"
    and "CreateOrderRequest.Items r = pre @ item # post"
    and "reserveAll (meshProducts w) pre = Some ps1"
    and "findIndex (\<lambda>p. Product.ID p = CreateOrderItem.ProductID item) ps1 = Some i"
    and "Product.Stock (ps1 ! i) <s CreateOrderItem.Quantity item"
  shows "status (fst (fst (createOrderHandler e (Some r) st w))) = 409
       \<and> snd (fst (createOrderHandler e (Some r) st w)) = (st, w\<lparr>meshProducts := ps1\<rparr>)
       \<and> \<not> list_ex (\<lambda>c. isRelease (fst c)) (calls (snd (createOrderHandler e (Some r) st w)))"
proof -
  from assms(2) have dec: "\<And>p. Decode e (marshalProduct p)
            = Some \<lparr>ProductResponse.ID = Product.ID p, Name = Product.Name p,
                    Price = Product.Price p, Stock = Product.Stock p\<rparr>" by simp
  obtain ev1 where v: "validateUser e (CreateOrderRequest.UserID r) w = ((Some True, w), ev1)"
    using mesh_validateUser [OF assms(1), of "CreateOrderRequest.UserID r" w] assms(3)
    by (metis prod.collapse)
  from reserveAll_catalogEntries [OF assms(5) refl]
  obtain entries where en: "catalogEntries (meshProducts w) pre = Some entries" by blast
  let ?w1 = "w\<lparr>meshProducts := ps1\<rparr>"
  have i': "findIndex (\<lambda>p. Product.ID p = CreateOrderItem.ProductID item) (meshProducts ?w1) = Some i"
    and low: "Product.Stock (meshProducts ?w1 ! i) <s CreateOrderItem.Quantity item"
    using assms(6,7) by simp_all
  obtain ev3 where step: "orderItemStep e (orderCounter st) item ?w1
      = ((Inl \<lparr>status = 409, body = Some (errorJSON
                  (''Insufficient stock for product ''
                     @ itoa (CreateOrderItem.ProductID item)))\<rparr>, ?w1), ev3)"
    using mesh_orderItemStep_insufficient [OF assms(1) dec i' low, of "orderCounter st"]
    by (metis prod.collapse)
  from mesh_loop_prefix [OF assms(1) dec assms(5) refl en, of "orderCounter st" "[]" 0]
  obtain ev2 where pre: "\<And>rest. orderItemsLoop e (orderCounter st) (pre @ rest) [] 0 w
      = (fst (orderItemsLoop e (orderCounter st) rest ([] @ orderItemsOf entries pre)
               (foldl (\<lambda>t (p, item). t + Product.Price p
                               * float64 e (CreateOrderItem.Quantity item)) 0 (zip entries pre))
               ?w1),
         ev2 @ snd (orderItemsLoop e (orderCounter st) rest ([] @ orderItemsOf entries pre)
               (foldl (\<lambda>t (p, item). t + Product.Price p
                               * float64 e (CreateOrderItem.Quantity item)) 0 (zip entries pre))
               ?w1))"
    by blast
  have l: "orderItemsLoop e (orderCounter st) (CreateOrderRequest.Items r) [] 0 w
      = ((Inl \<lparr>status = 409, body = Some (errorJSON
                  (''Insufficient stock for product ''
                     @ itoa (CreateOrderItem.ProductID item)))\<rparr>, ?w1), ev2 @ ev3)"
    unfolding assms(4) pre [of "item # post"] by (simp add: step)
  have "fst (createOrderHandler e (Some r) st w)
        = (\<lparr>status = 409, body = Some (errorJSON
                  (''Insufficient stock for product ''
                     @ itoa (CreateOrderItem.ProductID item)))\<rparr>, st, ?w1)"
    by (simp add: createOrderHandler_def withSpan_def v l)
  with createOrder_no_release [of e "Some r" st w] show ?thesis by simp
qed

text \<open>Two laptops reserved, then six smart watches refused: the laptop stock stays 13.\<close>

theorem createOrder_failed_reservation_not_compensated_witness:
  "status (fst (fst (createOrderHandler (meshEnv ''t1'' f64wire 201 10 11)
      (Some \<lparr>CreateOrderRequest.UserID = 1,
             Items = [\<lparr>CreateOrderItem.ProductID = 1, Quantity = 2\<rparr>,
                      \<lparr>CreateOrderItem.ProductID = 7, Quantity = 6\<rparr>]\<rparr>)
      initialStore \<lparr>meshUsers = users, meshProducts = products Finite\<rparr>))) = 409
   \<and> fst (snd (fst (createOrderHandler (meshEnv ''t1'' f64wire 201 10 11)
      (Some \<lparr>CreateOrderRequest.UserID = 1,
             Items = [\<lparr>CreateOrderItem.ProductID = 1, Quantity = 2\<rparr>,
                      \<lparr>CreateOrderItem.ProductID = 7, Quantity = 6\<rparr>]\<rparr>)
      initialStore \<lparr>meshUsers = users, meshProducts = products Finite\<rparr>))) = initialStore
   \<and> map Product.Stock (meshProducts (snd (snd (fst (createOrderHandler
        (meshEnv ''t1'' f64wire 201 10 11)
      (Some \<lparr>CreateOrderRequest.UserID = 1,
             Items = [\<lparr>CreateOrderItem.ProductID = 1, Quantity = 2\<rparr>,
                      \<lparr>CreateOrderItem.ProductID = 7, Quantity = 6\<rparr>]\<rparr>)
      initialStore \<lparr>meshUsers = users, meshProducts = products Finite\<rparr>)))))
     = [13, 8, 25, 12, 20, 30, 5, 18]"
proof -
  let ?e = "meshEnv ''t1'' f64wire 201 10 11"
  let ?r = "\<lparr>CreateOrderRequest.UserID = 1,
             Items = [\<lparr>CreateOrderItem.ProductID = 1, Quantity = 2\<rparr>,
                      \<lparr>CreateOrderItem.ProductID = 7, Quantity = 6\<rparr>]\<rparr>"
  let ?ps = "products Finite"
  let ?w = "\<lparr>meshUsers = users, meshProducts = ?ps\<rparr>"
  have h1: "Do ?e = meshDo ''t1''" by (simp add: meshEnv_def)
  have h2: "\<forall>p. Decode ?e (marshalProduct p)
            = Some \<lparr>ProductResponse.ID = Product.ID p, Name = Product.Name p,
                    Price = Product.Price p, Stock = Product.Stock p\<rparr>"
    by (simp add: meshEnv_def decode_marshalProduct)
  have h3: "find (\<lambda>u. User.ID u = CreateOrderRequest.UserID ?r) (meshUsers ?w) \<noteq> None"
    by (simp add: users_def)
  have h4: "CreateOrderRequest.Items ?r
      = [\<lparr>CreateOrderItem.ProductID = 1, Quantity = 2\<rparr>]
        @ \<lparr>CreateOrderItem.ProductID = 7, Quantity = 6\<rparr> # []"
    by simp
  have h5: "reserveAll (meshProducts ?w) [\<lparr>CreateOrderItem.ProductID = 1, Quantity = 2\<rparr>]
      = Some (?ps[0 := (?ps ! 0)\<lparr>Product.Stock := 13\<rparr>])"
    by (simp add: products_def word_sless_alt)
  have h6: "findIndex (\<lambda>p. Product.ID p
               = CreateOrderItem.ProductID \<lparr>CreateOrderItem.ProductID = 7, Quantity = 6\<rparr>)
             (?ps[0 := (?ps ! 0)\<lparr>Product.Stock := 13\<rparr>]) = Some 6"
    by (simp add: products_def)
  have h7: "Product.Stock ((?ps[0 := (?ps ! 0)\<lparr>Product.Stock := 13\<rparr>]) ! 6)
      <s CreateOrderItem.Quantity \<lparr>CreateOrderItem.ProductID = 7, Quantity = 6\<rparr>"
    by (simp add: products_def word_sless_alt)
  note eq = createOrder_failed_reservation_not_compensated
      [OF h1 h2 h3 h4 h5 h6 h7, of initialStore]
  from eq have st: "status (fst (fst (createOrderHandler ?e (Some ?r) initialStore ?w))) = 409"
    and rest: "snd (fst (createOrderHandler ?e (Some ?r) initialStore ?w))
      = (initialStore, ?w\<lparr>meshProducts := ?ps[0 := (?ps ! 0)\<lparr>Product.Stock := 13\<rparr>]\<rparr>)"
    by blast+
  show ?thesis
    unfolding st rest
    by (simp add: products_def)
qed

section \<open>Table mutations and locks\<close>

lemma guarded_no_locking:
  "\<not> list_ex isLocking es \<Longrightarrow> guarded [] es = (\<not> list_ex isMutate es)"
proof (induction es)
  case Nil
  then show ?case by simp
next
  case (Cons e es)
  then show ?case by (cases e) simp_all
qed

lemma isLocking_withSpan [simp]:
  "list_ex isLocking (snd (withSpan name run)) = list_ex isLocking (snd run)"
  by (simp add: withSpan_def)

lemma isMutate_withSpan [simp]:
  "list_ex isMutate (snd (withSpan name run)) = list_ex isMutate (snd run)"
  by (simp add: withSpan_def)

lemma unlocked_registerHandler:
  "\<not> list_ex isLocking (snd (registerHandler tid req us))"
  by (simp add: registerHandler_def Let_def split: option.splits)

lemma mutates_registerHandler:
  "snd (fst (registerHandler tid req us)) = us
   \<or> list_ex isMutate (snd (registerHandler tid req us))"
  by (simp add: registerHandler_def withSpan_def Let_def split: option.split)

lemma unlocked_reserveInventoryHandler:
  "\<not> list_ex isLocking (snd (reserveInventoryHandler tid idParam req ps))"
  by (simp add: reserveInventoryHandler_def Let_def split: option.splits)

lemma mutates_reserveInventoryHandler:
  "snd (fst (reserveInventoryHandler tid idParam req ps)) = ps
   \<or> list_ex isMutate (snd (reserveInventoryHandler tid idParam req ps))"
  by (simp add: reserveInventoryHandler_def withSpan_def Let_def split: option.split)

lemma unlocked_releaseInventoryHandler:
  "\<not> list_ex isLocking (snd (releaseInventoryHandler tid idParam req ps))"
  by (simp add: releaseInventoryHandler_def Let_def split: option.splits)

lemma mutates_releaseInventoryHandler:
  "snd (fst (releaseInventoryHandler tid idParam req ps)) = ps
   \<or> list_ex isMutate (snd (releaseInventoryHandler tid idParam req ps))"
  by (simp add: releaseInventoryHandler_def withSpan_def Let_def split: option.split)

lemma unlocked_updateProductPriceHandler:
  "\<not> list_ex isLocking (snd (updateProductPriceHandler flt tid idParam req draw now ps))"
  by (simp add: updateProductPriceHandler_def Let_def split: option.splits)

lemma mutates_updateProductPriceHandler:
  "snd (fst (updateProductPriceHandler flt tid idParam req draw now ps)) = ps
   \<or> list_ex isMutate (snd (updateProductPriceHandler flt tid idParam req draw now ps))"
  by (simp add: updateProductPriceHandler_def withSpan_def Let_def split: option.split)

lemma unlocked_updateOrderStatusHandler:
  "\<not> list_ex isLocking (snd (updateOrderStatusHandler e idParam req now os))"
  by (simp add: updateOrderStatusHandler_def Let_def split: option.splits)

lemma mutates_updateOrderStatusHandler:
  "snd (fst (updateOrderStatusHandler e idParam req now os)) = os
   \<or> list_ex isMutate (snd (updateOrderStatusHandler e idParam req now os))"
  by (simp add: updateOrderStatusHandler_def withSpan_def Let_def split: option.split)

lemma unlocked_cancelOrderHandler:
  "\<not> list_ex isLocking (snd (cancelOrderHandler e idParam draw now1 now2 now3 os))"
  by (simp add: cancelOrderHandler_def Let_def split: option.splits)

lemma mutates_cancelOrderHandler:
  "snd (fst (cancelOrderHandler e idParam draw now1 now2 now3 os)) = os
   \<or> list_ex isMutate (snd (cancelOrderHandler e idParam draw now1 now2 now3 os))"
  by (simp add: cancelOrderHandler_def withSpan_def Let_def split: option.split)

lemma unlocked_processPaymentHandler:
  "\<not> list_ex isLocking
        (snd (processPaymentHandler e idParam req draw1 draw2 now1 now2 now3 os))"
  by (simp add: processPaymentHandler_def Let_def split: option.splits)

lemma mutates_processPaymentHandler:
  "snd (fst (processPaymentHandler e idParam req draw1 draw2 now1 now2 now3 os)) = os
   \<or> list_ex isMutate (snd (processPaymentHandler e idParam req draw1 draw2 now1 now2 now3 os))"
  by (simp add: processPaymentHandler_def withSpan_def Let_def split: option.split)

lemma unlocked_orderItemStep:
  "\<not> list_ex isLocking (snd (orderItemStep e c item w))"
  "\<not> list_ex isMutate (snd (orderItemStep e c item w))"
  by (simp_all add: orderItemStep_def getProductDetails_def reserveInventory_def withSpan_def
      split: prod.splits option.splits)

lemma unlocked_orderItemsLoop:
  "\<not> list_ex isLocking (snd (orderItemsLoop e c items acc tot w))
   \<and> \<not> list_ex isMutate (snd (orderItemsLoop e c items acc tot w))"
proof (induction items arbitrary: acc tot w)
  case Nil
  then show ?case by simp
next
  case (Cons item items)
  obtain r1 w1 ev1 where s: "orderItemStep e c item w = ((r1, w1), ev1)"
    by (metis surj_pair)
  from unlocked_orderItemStep [of e c item w] s
  have a: "\<not> list_ex isLocking ev1" "\<not> list_ex isMutate ev1" by simp_all
  show ?case
  proof (cases r1)
    case (Inl resp)
    with s a show ?thesis by simp
  next
    case (Inr oi)
    obtain r2 ev2 where l: "orderItemsLoop e c items (acc @ [oi])
        (tot + OrderItem.Price oi * float64 e (CreateOrderItem.Quantity item)) w1 = (r2, ev2)"
      by (metis surj_pair)
    from Cons.IH [of "acc @ [oi]"
        "tot + OrderItem.Price oi * float64 e (CreateOrderItem.Quantity item)" w1] l
    have "\<not> list_ex isLocking ev2" "\<not> list_ex isMutate ev2" by simp_all
    with s a Inr l show ?thesis by simp
  qed
qed

lemma unlocked_createOrderHandler:
  "\<not> list_ex isLocking (snd (createOrderHandler e req st w))"
proof (cases req)
  case None
  then show ?thesis by (simp add: createOrderHandler_def)
next
  case (Some r)
  obtain v w1 ev1 where v: "validateUser e (CreateOrderRequest.UserID r) w = ((v, w1), ev1)"
    by (metis surj_pair)
  have a: "\<not> list_ex isLocking ev1"
    using v by (auto simp: validateUser_def withSpan_def split: prod.splits)
  obtain r2 w2 ev2 where l: "orderItemsLoop e (orderCounter st) (CreateOrderRequest.Items r) [] 0 w1
      = ((r2, w2), ev2)"
    by (metis surj_pair)
  from unlocked_orderItemsLoop [of e "orderCounter st" "CreateOrderRequest.Items r" "[]" 0 w1] l
  have b: "\<not> list_ex isLocking ev2" by simp
  from Some v l a b show ?thesis
    by (cases r2) (auto simp: createOrderHandler_def Let_def split: prod.splits)
qed

lemma mutates_createOrderHandler:
  "fst (snd (fst (createOrderHandler e req st w))) = st
   \<or> list_ex isMutate (snd (createOrderHandler e req st w))"
proof (cases req)
  case None
  then show ?thesis by (simp add: createOrderHandler_def withSpan_def)
next
  case (Some r)
  obtain v w1 ev1 where v: "validateUser e (CreateOrderRequest.UserID r) w = ((v, w1), ev1)"
    by (metis surj_pair)
  obtain r2 w2 ev2 where l: "orderItemsLoop e (orderCounter st) (CreateOrderRequest.Items r) [] 0 w1
      = ((r2, w2), ev2)"
    by (metis surj_pair)
  from Some v l show ?thesis
    by (cases r2) (auto simp: createOrderHandler_def withSpan_def Let_def split: prod.splits)
qed

text \<open>
  C8, as stated, fails: no code path that writes a table takes a lock. Registering a
  new user against the initial users table appends the user with no mutex held.
\<close>

theorem register_mutates_without_lock_counterexample:
  "\<not> guarded [] (snd (registerHandler ''t1''
         (Some \<lparr>RegisterRequest.Email = ''new@example.com'', Name = ''New User'',
                Password = ''password123''\<rparr>) users :: (rat response \<times> User list) \<times> rat event list))
   \<and> snd (fst (registerHandler ''t1''
         (Some \<lparr>RegisterRequest.Email = ''new@example.com'', Name = ''New User'',
                Password = ''password123''\<rparr>) users :: (rat response \<times> User list) \<times> rat event list))
     = users @ [\<lparr>User.ID = 4, Email = ''new@example.com'', Name = ''New User'',
                 Password = ''password123''\<rparr>]"
  by (simp add: registerHandler_def withSpan_def users_def Let_def)

text \<open>
  C8, amended. The eight handlers that assign to the users, products and orders tables
  (\<^verbatim>\<open>registerHandler\<close>; \<^verbatim>\<open>reserveInventoryHandler\<close>, \<^verbatim>\<open>releaseInventoryHandler\<close>,
  \<^verbatim>\<open>updateProductPriceHandler\<close>; \<^verbatim>\<open>createOrderHandler\<close>, \<^verbatim>\<open>updateOrderStatusHandler\<close>,
  \<^verbatim>\<open>cancelOrderHandler\<close>, \<^verbatim>\<open>processPaymentHandler\<close>) never lock or unlock a mutex, on any
  input; so whenever one of them leaves its table changed, the assignment was made with
  no lock held.
\<close>

theorem table_mutations_take_no_lock:
  fixes e :: "('p::{zero,plus,times,minus,inverse}, 'w) env"
    and ps :: "'p Product list" and os :: "'p Order list"
  shows "\<not> list_ex isLocking (snd (registerHandler tid reg us :: ('p response \<times> User list) \<times> 'p event list))
       \<and> (snd (fst (registerHandler tid reg us :: ('p response \<times> User list) \<times> 'p event list)) \<noteq> us
            \<longrightarrow> \<not> guarded [] (snd (registerHandler tid reg us
                                       :: ('p response \<times> User list) \<times> 'p event list)))
       \<and> \<not> list_ex isLocking (snd (reserveInventoryHandler tid idParam invReq ps))
       \<and> (snd (fst (reserveInventoryHandler tid idParam invReq ps)) \<noteq> ps
            \<longrightarrow> \<not> guarded [] (snd (reserveInventoryHandler tid idParam invReq ps)))
       \<and> \<not> list_ex isLocking (snd (releaseInventoryHandler tid idParam invReq ps))
       \<and> (snd (fst (releaseInventoryHandler tid idParam invReq ps)) \<noteq> ps
            \<longrightarrow> \<not> guarded [] (snd (releaseInventoryHandler tid idParam invReq ps)))
       \<and> \<not> list_ex isLocking (snd (updateProductPriceHandler flt tid idParam price draw now ps))
       \<and> (snd (fst (updateProductPriceHandler flt tid idParam price draw now ps)) \<noteq> ps
            \<longrightarrow> \<not> guarded [] (snd (updateProductPriceHandler flt tid idParam price draw now ps)))
       \<and> \<not> list_ex isLocking (snd (createOrderHandler e req st w))
       \<and> (fst (snd (fst (createOrderHandler e req st w))) \<noteq> st
            \<longrightarrow> \<not> guarded [] (snd (createOrderHandler e req st w)))
       \<and> \<not> list_ex isLocking (snd (updateOrderStatusHandler e idParam newStatus now os))
       \<and> (snd (fst (updateOrderStatusHandler e idParam newStatus now os)) \<noteq> os
            \<longrightarrow> \<not> guarded [] (snd (updateOrderStatusHandler e idParam newStatus now os)))
       \<and> \<not> list_ex isLocking (snd (cancelOrderHandler e idParam draw now now2 now3 os))
       \<and> (snd (fst (cancelOrderHandler e idParam draw now now2 now3 os)) \<noteq> os
            \<longrightarrow> \<not> guarded [] (snd (cancelOrderHandler e idParam draw now now2 now3 os)))
       \<and> \<not> list_ex isLocking
              (snd (processPaymentHandler e idParam payReq draw draw2 now now2 now3 os))
       \<and> (snd (fst (processPaymentHandler e idParam payReq draw draw2 now now2 now3 os)) \<noteq> os
            \<longrightarrow> \<not> guarded []
                   (snd (processPaymentHandler e idParam payReq draw draw2 now now2 now3 os)))"
proof -
  have g: "\<And>es :: 'p event list. \<not> list_ex isLocking es \<Longrightarrow> list_ex isMutate es
            \<Longrightarrow> \<not> guarded [] es"
    by (simp add: guarded_no_locking)
  note u = unlocked_registerHandler [where ?'a = 'p, of tid reg us]
    unlocked_reserveInventoryHandler [of tid idParam invReq ps]
    unlocked_releaseInventoryHandler [of tid idParam invReq ps]
    unlocked_updateProductPriceHandler [of flt tid idParam price draw now ps]
    unlocked_createOrderHandler [of e req st w]
    unlocked_updateOrderStatusHandler [of e idParam newStatus now os]
    unlocked_cancelOrderHandler [of e idParam draw now now2 now3 os]
    unlocked_processPaymentHandler [of e idParam payReq draw draw2 now now2 now3 os]
  note m = mutates_registerHandler [where ?'a = 'p, of tid reg us]
    mutates_reserveInventoryHandler [of tid idParam invReq ps]
    mutates_releaseInventoryHandler [of tid idParam invReq ps]
    mutates_updateProductPriceHandler [of flt tid idParam price draw now ps]
    mutates_createOrderHandler [of e req st w]
    mutates_updateOrderStatusHandler [of e idParam newStatus now os]
    mutates_cancelOrderHandler [of e idParam draw now now2 now3 os]
    mutates_processPaymentHandler [of e idParam payReq draw draw2 now now2 now3 os]
  show ?thesis
    by (intro conjI impI) (use u m g in \<open>blast+\<close>)
qed

text \<open>Reserving two laptops from the initial catalog changes the stock with no lock held.\<close>

theorem table_mutations_take_no_lock_witness:
  "\<not> guarded [] (snd (reserveInventoryHandler ''t1'' (Some 1)
          (Some \<lparr>InventoryRequest.Quantity = 2, OrderID = 1\<rparr>) (products (\<lambda>r. r))))
   \<and> \<not> list_ex isLocking (snd (reserveInventoryHandler ''t1'' (Some 1)
          (Some \<lparr>InventoryRequest.Quantity = 2, OrderID = 1\<rparr>) (products (\<lambda>r. r))))
   \<and> map Product.Stock (snd (fst (reserveInventoryHandler ''t1'' (Some 1)
          (Some \<lparr>InventoryRequest.Quantity = 2, OrderID = 1\<rparr>) (products (\<lambda>r. r)))))
     = [13, 8, 25, 12, 20, 30, 5, 18]"
proof -
  let ?q = "Some \<lparr>InventoryRequest.Quantity = 2, OrderID = 1\<rparr>"
  let ?ps = "products (\<lambda>r. r) :: rat Product list"
  have s: "map Product.Stock (snd (fst (reserveInventoryHandler ''t1'' (Some 1) ?q ?ps)))
     = [13, 8, 25, 12, 20, 30, 5, 18]"
    by (simp add: reserveInventoryHandler_def withSpan_def products_def Let_def word_sless_alt)
  then have c1: "snd (fst (reserveInventoryHandler ''t1'' (Some 1) ?q ?ps)) \<noteq> ?ps"
    by (auto simp: products_def)
  note t = table_mutations_take_no_lock [where ps = ?ps and tid = "''t1''"
      and idParam = "Some 1" and invReq = ?q]
  note a = t [THEN conjunct2, THEN conjunct2, THEN conjunct1]
  note b = t [THEN conjunct2, THEN conjunct2, THEN conjunct2, THEN conjunct1]
  from a b c1 s show ?thesis by simp
qed

section \<open>Properties of the traffic generator\<close>







lemma polls_append [simp]: "polls url (xs @ ys) = polls url xs @ polls url ys"
  by (simp add: polls_def)








section \<open>Span lifecycle\<close>










































lemma closes_Log [simp]: "closes [] [Log l]"
  by simp








































end
